theory Spec2Isabelle
  imports Complex_Main "HOL-Library.Word" "HOL-Library.Sublist"
begin

section \<open>Values of the tabular-data library\<close>

text \<open>
  The two scripts, \<^verbatim>\<open>generate_graph.py\<close> and \<^verbatim>\<open>generate_log_linegraph.py\<close>, are
  straight-line pipelines over a pandas DataFrame and a pyplot figure. The library
  operations they call are modelled here with the semantics of pandas 1.x/2.x on the
  dtypes that \<^verbatim>\<open>read_csv\<close> infers: \<^verbatim>\<open>int64\<close>, \<^verbatim>\<open>float64\<close>, \<^verbatim>\<open>bool\<close> and
  \<^verbatim>\<open>object\<close>.

  A \<^verbatim>\<open>float64\<close> is a finite value, negative zero, an infinity or not-a-number. A
  finite value is modelled by an exact rational, \<open>Fin 0\<close> being positive zero: the
  rounding of the mantissa is abstracted, the range is not. A result whose exact
  magnitude reaches \<open>2^1024 - 2^970\<close> is an infinity and one of at most \<open>2^-1075\<close> is a
  zero, each with the sign of the exact result. Division by zero does not raise on a
  numeric column: it gives an infinity or not-a-number. Integers beyond the \<^verbatim>\<open>int64\<close>
  range, which \<^verbatim>\<open>read_csv\<close> loads as \<^verbatim>\<open>uint64\<close> or as objects, are not modelled.
\<close>

datatype float64 = Fin rat | NZero | PInf | NInf | NaN

definition overflow_bound :: rat where
  "overflow_bound = 2 ^ 1024 - 2 ^ 970"

definition underflow_bound :: rat where
  "underflow_bound = 1 / 2 ^ 1075"

fun negative :: "float64 \<Rightarrow> bool" where
  "negative (Fin q) = (q < 0)"
| "negative NZero = True"
| "negative PInf = False"
| "negative NInf = True"
| "negative NaN = False"

fun magnitude :: "float64 \<Rightarrow> rat option" where
  "magnitude (Fin q) = Some \<bar>q\<bar>"
| "magnitude NZero = Some 0"
| "magnitude f = None"

fun is_zero :: "float64 \<Rightarrow> bool" where
  "is_zero (Fin q) = (q = 0)"
| "is_zero NZero = True"
| "is_zero f = False"

definition infinity :: "bool \<Rightarrow> float64" where
  "infinity neg = (if neg then NInf else PInf)"

definition signed_zero :: "bool \<Rightarrow> float64" where
  "signed_zero neg = (if neg then NZero else Fin 0)"

text \<open>The \<^verbatim>\<open>float64\<close> of a sign and an exact magnitude.\<close>

definition make_float :: "bool \<Rightarrow> rat \<Rightarrow> float64" where
  "make_float neg m =
     (if overflow_bound \<le> m then infinity neg
      else if m \<le> underflow_bound then signed_zero neg
      else Fin (if neg then - m else m))"

definition fmul :: "float64 \<Rightarrow> float64 \<Rightarrow> float64" where
  "fmul x y =
     (if x = NaN \<or> y = NaN then NaN
      else case (magnitude x, magnitude y) of
             (Some a, Some b) \<Rightarrow> make_float (negative x \<noteq> negative y) (a * b)
           | (Some a, None) \<Rightarrow> if a = 0 then NaN else infinity (negative x \<noteq> negative y)
           | (None, Some b) \<Rightarrow> if b = 0 then NaN else infinity (negative x \<noteq> negative y)
           | (None, None) \<Rightarrow> infinity (negative x \<noteq> negative y))"

definition fdiv :: "float64 \<Rightarrow> float64 \<Rightarrow> float64" where
  "fdiv x y =
     (if x = NaN \<or> y = NaN then NaN
      else case (magnitude x, magnitude y) of
             (Some a, Some b) \<Rightarrow>
               if b = 0 then (if a = 0 then NaN else infinity (negative x \<noteq> negative y))
               else make_float (negative x \<noteq> negative y) (a / b)
           | (Some a, None) \<Rightarrow> signed_zero (negative x \<noteq> negative y)
           | (None, Some b) \<Rightarrow> infinity (negative x \<noteq> negative y)
           | (None, None) \<Rightarrow> NaN)"

text \<open>
  The elements of an \<^verbatim>\<open>object\<close> column are Python objects. \<^verbatim>\<open>read_csv\<close> builds such
  a column from strings and the missing-value marker (the float not-a-number).
\<close>

datatype pyobj = PStr string | PInt int | PFloat float64 | PBool bool

datatype error =
    FileNotFoundError string
  | PermissionError string
  | NotADirectoryError string
  | OSError string
  | ParserError string
  | KeyError string
  | TypeError string
  | ZeroDivisionError string
  | OverflowError string
  | ValueError string

text \<open>Statements in sequence: the first exception ends the sequence.\<close>

definition and_then :: "error + 'a \<Rightarrow> ('a \<Rightarrow> error + 'b) \<Rightarrow> error + 'b" where
  "and_then r f = (case r of Inl e \<Rightarrow> Inl e | Inr x \<Rightarrow> f x)"

definition quoted :: "string \<Rightarrow> string" where
  "quoted s = CHR 0x27 # s @ [CHR 0x27]"

fun error_text :: "error \<Rightarrow> string" where
  "error_text (FileNotFoundError f) = ''[Errno 2] No such file or directory: '' @ quoted f"
| "error_text (PermissionError f) = ''[Errno 13] Permission denied: '' @ quoted f"
| "error_text (NotADirectoryError f) = ''[Errno 20] Not a directory: '' @ quoted f"
| "error_text (OSError m) = m"
| "error_text (ParserError m) = m"
| "error_text (KeyError k) = quoted k"
| "error_text (TypeError m) = m"
| "error_text (ZeroDivisionError m) = m"
| "error_text (OverflowError m) = m"
| "error_text (ValueError m) = m"

fun type_name :: "pyobj \<Rightarrow> string" where
  "type_name (PStr s) = ''str''"
| "type_name (PInt n) = ''int''"
| "type_name (PFloat f) = ''float''"
| "type_name (PBool b) = ''bool''"

fun py_bool :: "pyobj \<Rightarrow> bool" where
  "py_bool (PStr s) = (s \<noteq> [])"
| "py_bool (PInt n) = (n \<noteq> 0)"
| "py_bool (PFloat f) = (\<not> is_zero f)"
| "py_bool (PBool b) = b"

fun py_mul_int :: "pyobj \<Rightarrow> int \<Rightarrow> pyobj" where
  "py_mul_int (PStr s) n = PStr (concat (replicate (nat n) s))"
| "py_mul_int (PInt a) n = PInt (a * n)"
| "py_mul_int (PFloat f) n = PFloat (fmul f (Fin (of_int n)))"
| "py_mul_int (PBool b) n = PInt ((if b then 1 else 0) * n)"

text \<open>
  Python's \<^verbatim>\<open>/\<close>. Two integers (a boolean counts as 0 or 1) are divided exactly and
  the quotient made a float, which fails when it is too large. With a float operand the
  other operand is made a float first, which fails for an integer that is too large;
  the division is then that of \<^verbatim>\<open>float64\<close>, except that a zero divisor raises. A string
  operand is a TypeError.
\<close>

fun py_int :: "pyobj \<Rightarrow> int option" where
  "py_int (PInt n) = Some n"
| "py_int (PBool b) = Some (if b then 1 else 0)"
| "py_int x = None"

fun py_float :: "pyobj \<Rightarrow> (error + float64) option" where
  "py_float (PStr s) = None"
| "py_float (PFloat f) = Some (Inr f)"
| "py_float (PInt n) =
     Some (if overflow_bound \<le> \<bar>of_int n\<bar>
           then Inl (OverflowError ''int too large to convert to float'')
           else Inr (Fin (of_int n)))"
| "py_float (PBool b) = Some (Inr (Fin (if b then 1 else 0)))"

definition py_truediv :: "pyobj \<Rightarrow> pyobj \<Rightarrow> error + pyobj" where
  "py_truediv a b =
     (case (py_int a, py_int b) of
        (Some n, Some m) \<Rightarrow>
          if m = 0 then Inl (ZeroDivisionError ''division by zero'')
          else if overflow_bound \<le> \<bar>of_int n / of_int m\<bar>
          then Inl (OverflowError ''integer division result too large for a float'')
          else Inr (PFloat (make_float ((n < 0) \<noteq> (m < 0)) \<bar>of_int n / of_int m\<bar>))
      | _ \<Rightarrow>
          (case (py_float a, py_float b) of
             (Some x, Some y) \<Rightarrow>
               and_then x (\<lambda>x. and_then y (\<lambda>y.
                 if is_zero y then Inl (ZeroDivisionError ''float division by zero'')
                 else Inr (PFloat (fdiv x y))))
           | _ \<Rightarrow> Inl (TypeError (''unsupported operand type(s) for /: ''
                        @ quoted (type_name a) @ '' and '' @ quoted (type_name b)))))"

fun py_eq_bool :: "pyobj \<Rightarrow> bool \<Rightarrow> bool" where
  "py_eq_bool (PStr s) b = False"
| "py_eq_bool (PInt n) b = (n = (if b then 1 else 0))"
| "py_eq_bool (PFloat f) b = (if b then f = Fin 1 else is_zero f)"
| "py_eq_bool (PBool c) b = (c = b)"

definition isnull :: "pyobj \<Rightarrow> bool" where
  "isnull x = (x = PFloat NaN)"

section \<open>Columns and tables\<close>

text \<open>
  An \<^verbatim>\<open>int64\<close> column holds 64-bit two's-complement integers: element-wise
  arithmetic on it wraps around silently.
\<close>

datatype column =
    IntCol "64 word list"
  | FloatCol "float64 list"
  | BoolCol "bool list"
  | ObjCol "pyobj list"

datatype cell = CInt "64 word" | CFloat float64 | CBool bool | CObj pyobj

fun cells :: "column \<Rightarrow> cell list" where
  "cells (IntCol xs) = map CInt xs"
| "cells (FloatCol xs) = map CFloat xs"
| "cells (BoolCol xs) = map CBool xs"
| "cells (ObjCol xs) = map CObj xs"

definition col_len :: "column \<Rightarrow> nat" where
  "col_len c = length (cells c)"

text \<open>
  A DataFrame: the row labels (\<^verbatim>\<open>read_csv\<close> numbers the rows from 0) and the named
  columns in their order.
\<close>

record dataframe =
  index :: "nat list"
  columns :: "(string \<times> column) list"

definition wf_df :: "dataframe \<Rightarrow> bool" where
  "wf_df df \<longleftrightarrow>
     list_all (\<lambda>nc. col_len (snd nc) = length (index df)) (columns df)
     \<and> distinct (map fst (columns df))
     \<and> distinct (index df)"

text \<open>\<^verbatim>\<open>df[name]\<close>: the column, or KeyError.\<close>

definition getitem :: "dataframe \<Rightarrow> string \<Rightarrow> error + column" where
  "getitem df name =
     (case map_of (columns df) name of
        None \<Rightarrow> Inl (KeyError name)
      | Some c \<Rightarrow> Inr c)"

text \<open>\<^verbatim>\<open>df[name] = c\<close>: replaces the column of that name in place, or appends a new
  last column.\<close>

fun assign_col :: "string \<Rightarrow> column \<Rightarrow> (string \<times> column) list \<Rightarrow> (string \<times> column) list" where
  "assign_col k c [] = [(k, c)]"
| "assign_col k c (kc # rest) =
     (if fst kc = k then (k, c) # rest else kc # assign_col k c rest)"

definition setitem :: "dataframe \<Rightarrow> string \<Rightarrow> column \<Rightarrow> dataframe" where
  "setitem df name c = df\<lparr>columns := assign_col name c (columns df)\<rparr>"

text \<open>\<^verbatim>\<open>series * n\<close> for a small Python integer \<open>n\<close> such as the 1000 of the source
  (a scalar beyond the \<^verbatim>\<open>int64\<close> range is not modelled).\<close>

fun mul_scalar :: "column \<Rightarrow> int \<Rightarrow> column" where
  "mul_scalar (IntCol xs) n = IntCol (map (\<lambda>x. x * word_of_int n) xs)"
| "mul_scalar (FloatCol xs) n = FloatCol (map (\<lambda>f. fmul f (Fin (of_int n))) xs)"
| "mul_scalar (BoolCol xs) n = IntCol (map (\<lambda>b. if b then word_of_int n else 0) xs)"
| "mul_scalar (ObjCol xs) n = ObjCol (map (\<lambda>x. py_mul_int x n) xs)"

text \<open>The elements of a numeric column as \<^verbatim>\<open>float64\<close> (true division converts both
  operands), and the elements of any column as Python objects. \<open>as_floats\<close> is applied
  to numeric columns only.\<close>

fun as_floats :: "column \<Rightarrow> float64 list" where
  "as_floats (IntCol xs) = map (\<lambda>x. Fin (of_int (sint x))) xs"
| "as_floats (FloatCol xs) = xs"
| "as_floats (BoolCol xs) = map (\<lambda>b. Fin (if b then 1 else 0)) xs"
| "as_floats (ObjCol xs) = []"

fun as_objects :: "column \<Rightarrow> pyobj list" where
  "as_objects (IntCol xs) = map (\<lambda>x. PInt (sint x)) xs"
| "as_objects (FloatCol xs) = map PFloat xs"
| "as_objects (BoolCol xs) = map PBool xs"
| "as_objects (ObjCol xs) = xs"

fun is_object :: "column \<Rightarrow> bool" where
  "is_object (ObjCol xs) = True"
| "is_object c = False"

text \<open>
  Division with an \<^verbatim>\<open>object\<close> operand applies Python's \<^verbatim>\<open>/\<close> to the elements in
  row order; when that raises TypeError, pandas retries on the rows where neither
  operand is missing and fills the others with not-a-number.
\<close>

fun obj_div_all :: "pyobj list \<Rightarrow> pyobj list \<Rightarrow> error + pyobj list" where
  "obj_div_all (a # as) (b # bs) =
     (case py_truediv a b of
        Inl e \<Rightarrow> Inl e
      | Inr q \<Rightarrow> (case obj_div_all as bs of Inl e \<Rightarrow> Inl e | Inr qs \<Rightarrow> Inr (q # qs)))"
| "obj_div_all as bs = Inr []"

fun obj_div_masked :: "pyobj list \<Rightarrow> pyobj list \<Rightarrow> error + pyobj list" where
  "obj_div_masked (a # as) (b # bs) =
     (case (if isnull a \<or> isnull b then Inr (PFloat NaN) else py_truediv a b) of
        Inl e \<Rightarrow> Inl e
      | Inr q \<Rightarrow> (case obj_div_masked as bs of Inl e \<Rightarrow> Inl e | Inr qs \<Rightarrow> Inr (q # qs)))"
| "obj_div_masked as bs = Inr []"

text \<open>\<^verbatim>\<open>left / right\<close> for two columns of one table (the row labels agree, so the
  division is by position).\<close>

definition truediv :: "column \<Rightarrow> column \<Rightarrow> error + column" where
  "truediv l r =
     (if is_object l \<or> is_object r
      then (case obj_div_all (as_objects l) (as_objects r) of
              Inr qs \<Rightarrow> Inr (ObjCol qs)
            | Inl (TypeError m) \<Rightarrow>
                (case obj_div_masked (as_objects l) (as_objects r) of
                   Inl e \<Rightarrow> Inl e
                 | Inr qs \<Rightarrow> Inr (ObjCol qs))
            | Inl e \<Rightarrow> Inl e)
      else Inr (FloatCol (map (\<lambda>xy. fdiv (fst xy) (snd xy)) (zip (as_floats l) (as_floats r)))))"

text \<open>\<^verbatim>\<open>series.astype(bool)\<close>: zero is false and every other number is true, also
  not-a-number; an object is converted by Python's truth value.\<close>

fun astype_bool :: "column \<Rightarrow> column" where
  "astype_bool (IntCol xs) = BoolCol (map (\<lambda>x. x \<noteq> 0) xs)"
| "astype_bool (FloatCol xs) = BoolCol (map (\<lambda>f. \<not> is_zero f) xs)"
| "astype_bool (BoolCol xs) = BoolCol xs"
| "astype_bool (ObjCol xs) = BoolCol (map py_bool xs)"

text \<open>\<^verbatim>\<open>series == b\<close> for a Python boolean \<open>b\<close>: the mask of the rows that are
  equal to it.\<close>

fun eq_scalar :: "column \<Rightarrow> bool \<Rightarrow> bool list" where
  "eq_scalar (IntCol xs) b = map (\<lambda>x. x = (if b then 1 else 0)) xs"
| "eq_scalar (FloatCol xs) b = map (\<lambda>f. if b then f = Fin 1 else is_zero f) xs"
| "eq_scalar (BoolCol xs) b = map (\<lambda>x. x = b) xs"
| "eq_scalar (ObjCol xs) b = map (\<lambda>x. py_eq_bool x b) xs"

text \<open>\<^verbatim>\<open>df[mask]\<close>: the rows whose mask entry is true, in their order, with their row
  labels.\<close>

fun take_mask :: "bool list \<Rightarrow> 'a list \<Rightarrow> 'a list" where
  "take_mask (m # ms) (x # xs) = (if m then x # take_mask ms xs else take_mask ms xs)"
| "take_mask ms xs = []"

fun select_col :: "bool list \<Rightarrow> column \<Rightarrow> column" where
  "select_col m (IntCol xs) = IntCol (take_mask m xs)"
| "select_col m (FloatCol xs) = FloatCol (take_mask m xs)"
| "select_col m (BoolCol xs) = BoolCol (take_mask m xs)"
| "select_col m (ObjCol xs) = ObjCol (take_mask m xs)"

definition select_rows :: "dataframe \<Rightarrow> bool list \<Rightarrow> dataframe" where
  "select_rows df m =
     \<lparr>index = take_mask m (index df),
      columns = map (\<lambda>nc. (fst nc, select_col m (snd nc))) (columns df)\<rparr>"

text \<open>The records of a table: each row label with the cells of that row, by column
  name.\<close>

type_synonym row = "nat \<times> (string \<times> cell) list"

fun rows_of :: "nat list \<Rightarrow> (string \<times> cell list) list \<Rightarrow> row list" where
  "rows_of [] cs = []"
| "rows_of (i # is) cs =
     (i, map (\<lambda>nc. (fst nc, hd (snd nc))) cs) # rows_of is (map (\<lambda>nc. (fst nc, tl (snd nc))) cs)"

definition rows :: "dataframe \<Rightarrow> row list" where
  "rows df = rows_of (index df) (map (\<lambda>nc. (fst nc, cells (snd nc))) (columns df))"

definition field :: "row \<Rightarrow> string \<Rightarrow> cell option" where
  "field r name = map_of (snd r) name"

section \<open>The plotting surface\<close>

datatype axis_scale = Linear | Log

record series =
  xdata :: column
  ydata :: column
  label :: string
  marker :: string
  linestyle :: string

text \<open>The grid lines that \<^verbatim>\<open>plt.grid(True, which=..., ls=..., alpha=...)\<close> switches on:
  the major ones unless \<^verbatim>\<open>which\<close> says otherwise, in the default line style and
  opacity unless \<^verbatim>\<open>ls\<close> and \<^verbatim>\<open>alpha\<close> are given.\<close>

record grid_lines =
  grid_which :: string
  grid_ls :: "string option"
  grid_alpha :: "rat option"

record figure =
  figsize :: "nat \<times> nat"
  plotted :: "series list"
  yscale :: axis_scale
  xlabel :: string
  ylabel :: string
  title :: string
  legend_title :: "string option"
  grid :: "grid_lines option"

text \<open>\<^verbatim>\<open>plt.figure(figsize=...)\<close>: a new figure with no series, linear axes, no labels,
  no legend and no grid.\<close>

definition plt_figure :: "nat \<times> nat \<Rightarrow> figure" where
  "plt_figure sz =
     \<lparr>figsize = sz, plotted = [], yscale = Linear, xlabel = [], ylabel = [],
      title = [], legend_title = None, grid = None\<rparr>"

text \<open>
  What \<^verbatim>\<open>plt.plot\<close> does with the data of one axis. A numeric column is plotted as
  it is. In an \<^verbatim>\<open>object\<close> column the first element that is not an infinity or
  not-a-number decides: when it is a string the axis becomes categorical, and every
  element must then be a string (TypeError otherwise); when it is a number, or there is
  none, the elements are converted to floats when the line is added, which fails on a
  string (ValueError).
\<close>

fun is_str :: "pyobj \<Rightarrow> bool" where
  "is_str (PStr s) = True"
| "is_str x = False"

fun finite_obj :: "pyobj \<Rightarrow> bool" where
  "finite_obj (PFloat PInf) = False"
| "finite_obj (PFloat NInf) = False"
| "finite_obj (PFloat NaN) = False"
| "finite_obj x = True"

definition categorical :: "pyobj list \<Rightarrow> bool" where
  "categorical xs = (case find finite_obj xs of Some x \<Rightarrow> is_str x | None \<Rightarrow> False)"

fun axis_units_error :: "column \<Rightarrow> error option" where
  "axis_units_error (ObjCol xs) =
     (if categorical xs
      then (case find (\<lambda>x. \<not> is_str x) xs of
              Some x \<Rightarrow> Some (TypeError (quoted ''value''
                         @ '' must be an instance of str or bytes, not a '' @ type_name x))
            | None \<Rightarrow> None)
      else None)"
| "axis_units_error c = None"

fun axis_convert_error :: "column \<Rightarrow> error option" where
  "axis_convert_error (ObjCol xs) =
     (if categorical xs then None
      else (case find is_str xs of
              Some (PStr s) \<Rightarrow> Some (ValueError (''could not convert string to float: '' @ quoted s))
            | _ \<Rightarrow> None))"
| "axis_convert_error c = None"

fun first_error :: "error option list \<Rightarrow> error option" where
  "first_error [] = None"
| "first_error (Some e # rest) = Some e"
| "first_error (None # rest) = first_error rest"

text \<open>The exception that \<^verbatim>\<open>plt.plot(x, y, ...)\<close> raises, if any: the units of the X
  axis and of the Y axis are settled first, then the two lengths are compared, then
  the line is added.\<close>

definition plot_error :: "column \<Rightarrow> column \<Rightarrow> error option" where
  "plot_error x y =
     first_error
       [axis_units_error x,
        axis_units_error y,
        (if col_len x \<noteq> col_len y
         then Some (ValueError ''x and y must have same first dimension'') else None),
        axis_convert_error x,
        axis_convert_error y]"

text \<open>\<^verbatim>\<open>plt.plot(x, y, label=..., marker=..., linestyle=...)\<close>: adds one series whose
  points are the pairs of \<open>x\<close> and \<open>y\<close> in the order given, unless it raises.\<close>

definition plt_plot :: "figure \<Rightarrow> column \<Rightarrow> column \<Rightarrow> string \<Rightarrow> string \<Rightarrow> string \<Rightarrow> error + figure" where
  "plt_plot fig x y lab mk ls =
     (case plot_error x y of
        Some e \<Rightarrow> Inl e
      | None \<Rightarrow>
          Inr (fig\<lparr>plotted := plotted fig
                 @ [\<lparr>xdata = x, ydata = y, label = lab, marker = mk, linestyle = ls\<rparr>]\<rparr>))"

definition points :: "series \<Rightarrow> (cell \<times> cell) list" where
  "points s = zip (cells (xdata s)) (cells (ydata s))"

definition series_data :: "figure \<Rightarrow> (column \<times> column) list" where
  "series_data fig = map (\<lambda>s. (xdata s, ydata s)) (plotted fig)"

section \<open>The linear pipeline (generate\_graph.py)\<close>

text \<open>Lines 19 and 22: the throughput column and the boolean \<^verbatim>\<open>verified\<close> column.\<close>

definition linear_metrics :: "dataframe \<Rightarrow> error + dataframe" where
  "linear_metrics df =
     and_then (getitem df ''num_txns'') (\<lambda>num_txns.
     and_then (getitem df ''elapsed_ms'') (\<lambda>elapsed_ms.
     and_then (truediv (mul_scalar num_txns 1000) elapsed_ms) (\<lambda>throughput.
     let df1 = setitem df ''throughput'' throughput in
     and_then (getitem df1 ''verified'') (\<lambda>verified.
     Inr (setitem df1 ''verified'' (astype_bool verified))))))"

text \<open>Lines 28 and 29: the rows with \<^verbatim>\<open>verified == True\<close> and those with
  \<^verbatim>\<open>verified == False\<close>.\<close>

definition linear_partition :: "dataframe \<Rightarrow> error + dataframe \<times> dataframe" where
  "linear_partition df =
     and_then (getitem df ''verified'') (\<lambda>v1.
     let df_true = select_rows df (eq_scalar v1 True) in
     and_then (getitem df ''verified'') (\<lambda>v2.
     let df_false = select_rows df (eq_scalar v2 False) in
     Inr (df_true, df_false)))"

text \<open>Lines 33 to 44: the two series and the decoration of the chart.\<close>

definition linear_plot :: "figure \<Rightarrow> dataframe \<Rightarrow> dataframe \<Rightarrow> error + figure" where
  "linear_plot fig df_true df_false =
     and_then (getitem df_true ''num_keys'') (\<lambda>x1.
     and_then (getitem df_true ''throughput'') (\<lambda>y1.
     and_then (plt_plot fig x1 y1 ''Verified = True'' ''o'' ''-'') (\<lambda>fig1.
     and_then (getitem df_false ''num_keys'') (\<lambda>x2.
     and_then (getitem df_false ''throughput'') (\<lambda>y2.
     and_then (plt_plot fig1 x2 y2 ''Verified = False'' ''o'' ''-'') (\<lambda>fig2.
     Inr (fig2\<lparr>xlabel := ''Number of Keys (num_keys)'',
               ylabel := ''Throughput (transactions/second)'',
               title := ''Throughput vs. Number of Keys by Verification Status'',
               legend_title := Some ''Verified'',
               grid := Some \<lparr>grid_which = ''major'', grid_ls = None, grid_alpha = None\<rparr>\<rparr>)))))))"

text \<open>Lines 19 to 44, from the loaded table to the finished chart.\<close>

definition linear_chart :: "dataframe \<Rightarrow> error + figure" where
  "linear_chart df0 =
     and_then (linear_metrics df0) (\<lambda>df.
     let fig = plt_figure (10, 6) in
     and_then (linear_partition df) (\<lambda>parts.
     linear_plot fig (fst parts) (snd parts)))"

section \<open>The logarithmic pipeline (generate\_log\_linegraph.py)\<close>

text \<open>Lines 14 and 17.\<close>

definition log_metrics :: "dataframe \<Rightarrow> error + dataframe" where
  "log_metrics df =
     and_then (getitem df ''num_txns'') (\<lambda>num_txns.
     and_then (getitem df ''elapsed_ms'') (\<lambda>elapsed_ms.
     and_then (truediv (mul_scalar num_txns 1000) elapsed_ms) (\<lambda>throughput.
     let df1 = setitem df ''throughput'' throughput in
     and_then (getitem df1 ''verified'') (\<lambda>verified.
     Inr (setitem df1 ''verified'' (astype_bool verified))))))"

text \<open>Lines 23 and 24.\<close>

definition log_partition :: "dataframe \<Rightarrow> error + dataframe \<times> dataframe" where
  "log_partition df =
     and_then (getitem df ''verified'') (\<lambda>v1.
     let df_true = select_rows df (eq_scalar v1 True) in
     and_then (getitem df ''verified'') (\<lambda>v2.
     let df_false = select_rows df (eq_scalar v2 False) in
     Inr (df_true, df_false)))"

text \<open>Lines 27 to 43: the two series, the logarithmic Y axis and the decoration.\<close>

definition log_plot :: "figure \<Rightarrow> dataframe \<Rightarrow> dataframe \<Rightarrow> error + figure" where
  "log_plot fig df_true df_false =
     and_then (getitem df_true ''num_keys'') (\<lambda>x1.
     and_then (getitem df_true ''throughput'') (\<lambda>y1.
     and_then (plt_plot fig x1 y1 ''Verified = True'' ''o'' ''-'') (\<lambda>fig1.
     and_then (getitem df_false ''num_keys'') (\<lambda>x2.
     and_then (getitem df_false ''throughput'') (\<lambda>y2.
     and_then (plt_plot fig1 x2 y2 ''Verified = False'' ''s'' ''--'') (\<lambda>fig2.
     Inr (fig2\<lparr>yscale := Log,
               xlabel := ''Number of Keys'',
               ylabel := ''Throughput (txns/sec) - Log Scale'',
               title := ''Throughput vs. Number of Keys'',
               legend_title := Some ''Verified'',
               grid := Some \<lparr>grid_which = ''both'', grid_ls = Some ''-'', grid_alpha = Some (1 / 2)\<rparr>\<rparr>)))))))"

text \<open>Lines 14 to 43.\<close>

definition log_chart :: "dataframe \<Rightarrow> error + figure" where
  "log_chart df0 =
     and_then (log_metrics df0) (\<lambda>df.
     let fig = plt_figure (10, 6) in
     and_then (log_partition df) (\<lambda>parts.
     log_plot fig (fst parts) (snd parts)))"

section \<open>Files, console and the two entry points\<close>

text \<open>
  What \<^verbatim>\<open>read_csv\<close> does at a path: it returns the table of the file, or it raises.
  It raises FileNotFoundError when the operating system reports that there is no such
  file or directory; PermissionError, NotADirectoryError, another OSError or ValueError
  when the name cannot be opened for another reason; and a parser error when the
  content is not a CSV table. \<^verbatim>\<open>except FileNotFoundError\<close> catches the first of these
  and no other.
\<close>

datatype file_state = Raises error | Table dataframe

fun is_file_not_found :: "error \<Rightarrow> bool" where
  "is_file_not_found (FileNotFoundError f) = True"
| "is_file_not_found e = False"

text \<open>The surroundings of a run: what reading each path does, the exception that
  writing each output name raises (if any), the charts written and the lines printed.\<close>

record world =
  files :: "string \<Rightarrow> file_state"
  save_error :: "string \<Rightarrow> error option"
  outputs :: "string \<rightharpoonup> figure"
  console :: "string list"

definition read_csv :: "world \<Rightarrow> string \<Rightarrow> error + dataframe" where
  "read_csv w file_path =
     (case files w file_path of
        Raises e \<Rightarrow> Inl e
      | Table df \<Rightarrow> Inr df)"

text \<open>\<^verbatim>\<open>plt.savefig(name)\<close>: writes the figure under that name, replacing what was
  there, or raises (a PermissionError, or a FileNotFoundError when the directory is
  gone) and writes nothing.\<close>

definition savefig :: "world \<Rightarrow> string \<Rightarrow> figure \<Rightarrow> error + world" where
  "savefig w name fig =
     (case save_error w name of
        Some e \<Rightarrow> Inl e
      | None \<Rightarrow> Inr (w\<lparr>outputs := (outputs w)(name \<mapsto> fig)\<rparr>))"

definition print :: "world \<Rightarrow> string \<Rightarrow> world" where
  "print w s = w\<lparr>console := console w @ [s]\<rparr>"

text \<open>How a run ends: the function returns, or an exception that nothing catches
  ends the interpreter with a traceback.\<close>

datatype outcome = Returned | Crashed error

text \<open>generate\_graph.py, lines 14 to 49: the body of the \<^verbatim>\<open>try\<close> block.\<close>

definition linear_body :: "string \<Rightarrow> world \<Rightarrow> error + world" where
  "linear_body file_path w =
     and_then (read_csv w file_path) (\<lambda>df.
     and_then (linear_chart df) (\<lambda>fig.
     and_then (savefig w ''linegraph.png'' fig) (\<lambda>w1.
     Inr (print w1 ''Line graph saved to linegraph.png''))))"

text \<open>The whole body is inside \<^verbatim>\<open>try\<close>, with a handler for FileNotFoundError and
  one for every other Exception.\<close>

definition generate_throughput_linegraph :: "string \<Rightarrow> world \<Rightarrow> outcome \<times> world" where
  "generate_throughput_linegraph file_path w =
     (case linear_body file_path w of
        Inr w2 \<Rightarrow> (Returned, w2)
      | Inl (FileNotFoundError f) \<Rightarrow>
          (Returned, print w (''Error: The file '' @ quoted file_path @ '' was not found.''))
      | Inl e \<Rightarrow> (Returned, print w (''An error occurred: '' @ error_text e)))"

text \<open>generate\_log\_linegraph.py: only \<^verbatim>\<open>read_csv\<close> is inside \<^verbatim>\<open>try\<close>, with a
  handler for FileNotFoundError alone.\<close>

definition generate_log_linegraph :: "string \<Rightarrow> world \<Rightarrow> outcome \<times> world" where
  "generate_log_linegraph file_path w =
     (case read_csv w file_path of
        Inl (FileNotFoundError f) \<Rightarrow>
          (Returned, print w (''Error: The file '' @ quoted file_path @ '' was not found.''))
      | Inl e \<Rightarrow> (Crashed e, w)
      | Inr df \<Rightarrow>
          (case log_chart df of
             Inl e \<Rightarrow> (Crashed e, w)
           | Inr fig \<Rightarrow>
               (case savefig w ''linegraph_log.png'' fig of
                  Inl e \<Rightarrow> (Crashed e, w)
                | Inr w1 \<Rightarrow> (Returned, print w1 ''Graph saved to linegraph_log.png''))))"

section \<open>Notions used to state the properties\<close>

text \<open>The exact value of a finite float and of a numeric cell; an infinity,
  not-a-number and an object have none.\<close>

fun float_value :: "float64 \<Rightarrow> rat option" where
  "float_value (Fin q) = Some q"
| "float_value NZero = Some 0"
| "float_value f = None"

fun cell_value :: "cell \<Rightarrow> rat option" where
  "cell_value (CInt x) = Some (of_int (sint x))"
| "cell_value (CFloat f) = float_value f"
| "cell_value (CBool b) = Some (if b then 1 else 0)"
| "cell_value (CObj x) = None"

text \<open>Zero, or a magnitude in the range of the normal \<^verbatim>\<open>float64\<close> values, away from
  overflow.\<close>

definition normal_range :: "rat \<Rightarrow> bool" where
  "normal_range q \<longleftrightarrow> q = 0 \<or> (1 / 2 ^ 1022 \<le> \<bar>q\<bar> \<and> \<bar>q\<bar> < 2 ^ 1023)"

text \<open>A cell whose product with 1000 does not leave its dtype: an \<^verbatim>\<open>int64\<close> whose
  product is again an \<^verbatim>\<open>int64\<close>, a finite \<^verbatim>\<open>float64\<close> whose product is in the normal
  range, or a boolean.\<close>

fun no_overflow :: "cell \<Rightarrow> bool" where
  "no_overflow (CInt x) = (- (2 ^ 63) \<le> sint x * 1000 \<and> sint x * 1000 < 2 ^ 63)"
| "no_overflow (CFloat f) = (case float_value f of Some a \<Rightarrow> normal_range (a * 1000) | None \<Rightarrow> False)"
| "no_overflow (CBool b) = True"
| "no_overflow (CObj x) = False"

text \<open>The negative zero of a \<^verbatim>\<open>float64\<close> column.\<close>

fun negative_zero :: "cell \<Rightarrow> bool" where
  "negative_zero (CFloat NZero) = True"
| "negative_zero c = False"

text \<open>The column of a given name that a metric step leaves in the table.\<close>

definition column_after :: "(dataframe \<Rightarrow> error + dataframe) \<Rightarrow> string \<Rightarrow> dataframe \<Rightarrow> error + column" where
  "column_after metrics name df = and_then (metrics df) (\<lambda>d. getitem d name)"

text \<open>The X and Y columns of the series of a chart, or the error that prevented it.\<close>

definition chart_series :: "error + figure \<Rightarrow> error + (column \<times> column) list" where
  "chart_series r = (case r of Inl e \<Rightarrow> Inl e | Inr fig \<Rightarrow> Inr (series_data fig))"

text \<open>How the chart of the logarithmic pipeline is made from that of the linear one: the
  second series is drawn with square markers and a dashed line, the Y axis is
  logarithmic, the axis labels and the title are shorter, and the grid has the minor
  lines too, drawn solid and half transparent.\<close>

fun second_dashed :: "series list \<Rightarrow> series list" where
  "second_dashed (s1 # s2 # rest) = s1 # s2\<lparr>marker := ''s'', linestyle := ''--''\<rparr> # rest"
| "second_dashed ss = ss"

definition log_styled :: "figure \<Rightarrow> figure" where
  "log_styled f =
     f\<lparr>plotted := second_dashed (plotted f),
       yscale := Log,
       xlabel := ''Number of Keys'',
       ylabel := ''Throughput (txns/sec) - Log Scale'',
       title := ''Throughput vs. Number of Keys'',
       grid := Some \<lparr>grid_which = ''both'', grid_ls = Some ''-'', grid_alpha = Some (1 / 2)\<rparr>\<rparr>"

text \<open>What a cell of the raw \<^verbatim>\<open>verified\<close> column is: a number (also an infinity or
  not-a-number), a boolean, or a text.\<close>

fun cell_number :: "cell \<Rightarrow> float64 option" where
  "cell_number (CInt x) = Some (Fin (of_int (sint x)))"
| "cell_number (CFloat f) = Some f"
| "cell_number (CBool b) = None"
| "cell_number (CObj (PInt n)) = Some (Fin (of_int n))"
| "cell_number (CObj (PFloat f)) = Some f"
| "cell_number (CObj x) = None"

fun cell_boolean :: "cell \<Rightarrow> bool option" where
  "cell_boolean (CBool b) = Some b"
| "cell_boolean (CObj (PBool b)) = Some b"
| "cell_boolean c = None"

fun cell_text :: "cell \<Rightarrow> string option" where
  "cell_text (CObj (PStr s)) = Some s"
| "cell_text c = None"

text \<open>
  The coercion the specification describes (section 4.2): non-zero numeric values and
  "true" in any letter case map to true; "false", 0 and empty map to false. An empty
  cell is loaded as the missing value, not-a-number. The specification says nothing of
  other texts.
\<close>

definition lower_char :: "char \<Rightarrow> char" where
  "lower_char c =
     (case map_of (zip ''ABCDEFGHIJKLMNOPQRSTUVWXYZ'' ''abcdefghijklmnopqrstuvwxyz'') c of
        Some d \<Rightarrow> d
      | None \<Rightarrow> c)"

definition lower :: "string \<Rightarrow> string" where
  "lower s = map lower_char s"

fun spec_coerce :: "cell \<Rightarrow> bool option" where
  "spec_coerce (CInt x) = Some (x \<noteq> 0)"
| "spec_coerce (CFloat NaN) = Some False"
| "spec_coerce (CFloat f) = Some (\<not> is_zero f)"
| "spec_coerce (CBool b) = Some b"
| "spec_coerce (CObj (PStr s)) =
     (if lower s = ''true'' then Some True
      else if lower s = ''false'' \<or> s = [] then Some False
      else None)"
| "spec_coerce (CObj (PInt n)) = Some (n \<noteq> 0)"
| "spec_coerce (CObj (PFloat NaN)) = Some False"
| "spec_coerce (CObj (PFloat f)) = Some (\<not> is_zero f)"
| "spec_coerce (CObj (PBool b)) = Some b"

fun is_missing :: "cell \<Rightarrow> bool" where
  "is_missing (CFloat NaN) = True"
| "is_missing (CObj (PFloat NaN)) = True"
| "is_missing c = False"

fun is_false_text :: "cell \<Rightarrow> bool" where
  "is_false_text (CObj (PStr s)) = (lower s = ''false'')"
| "is_false_text c = False"


text \<open>The two rows of the specification's example, and the table the metric step
  makes of them.\<close>

definition example_table :: dataframe where
  "example_table =
     \<lparr>index = [0, 1],
      columns = [(''num_txns'', IntCol [100, 200]),
                 (''elapsed_ms'', IntCol [50, 100]),
                 (''num_keys'', IntCol [10, 20]),
                 (''verified'', BoolCol [True, False])]\<rparr>"

definition example_metrics :: dataframe where
  "example_metrics =
     \<lparr>index = [0, 1],
      columns = [(''num_txns'', IntCol [100, 200]),
                 (''elapsed_ms'', IntCol [50, 100]),
                 (''num_keys'', IntCol [10, 20]),
                 (''verified'', BoolCol [True, False]),
                 (''throughput'', FloatCol [Fin 2000, Fin 2000])]\<rparr>"



text \<open>A run that took no measurable time, and a run of ten thousand million million
  transactions; and measurements written as decimals, with a negative zero and a value
  near the end of the \<^verbatim>\<open>float64\<close> range.\<close>

definition extreme_table :: dataframe where
  "extreme_table =
     \<lparr>index = [0, 1],
      columns = [(''num_txns'', IntCol [100, 10000000000000000]),
                 (''elapsed_ms'', IntCol [0, 1]),
                 (''num_keys'', IntCol [10, 20]),
                 (''verified'', BoolCol [True, False])]\<rparr>"

definition decimal_table :: dataframe where
  "decimal_table =
     \<lparr>index = [0, 1, 2, 3],
      columns = [(''num_txns'', FloatCol [Fin 1, Fin (- 1), Fin (10 ^ 308), Fin (5 / 2)]),
                 (''elapsed_ms'', FloatCol [NZero, NZero, Fin 1, Fin (1 / 2)]),
                 (''num_keys'', IntCol [10, 20, 30, 40]),
                 (''verified'', BoolCol [True, False, True, False])]\<rparr>"

text \<open>Further tables: answers given as text with one answer missing, rows that are not
  in the order of \<^verbatim>\<open>num_keys\<close>, answers given as counts, keys given as text with one
  key missing, a file with a header and no rows, and a file without
  the \<^verbatim>\<open>num_txns\<close> column; each with the table the metric step makes of it where
  there is one.\<close>

definition answers_table :: dataframe where
  "answers_table =
     \<lparr>index = [0, 1, 2, 3],
      columns = [(''num_txns'', IntCol [100, 200, 300, 400]),
                 (''elapsed_ms'', IntCol [50, 100, 150, 200]),
                 (''num_keys'', IntCol [10, 20, 30, 40]),
                 (''verified'', ObjCol [PStr ''yes'', PStr ''false'', PStr ''False'', PFloat NaN])]\<rparr>"

definition answers_metrics :: dataframe where
  "answers_metrics =
     \<lparr>index = [0, 1, 2, 3],
      columns = [(''num_txns'', IntCol [100, 200, 300, 400]),
                 (''elapsed_ms'', IntCol [50, 100, 150, 200]),
                 (''num_keys'', IntCol [10, 20, 30, 40]),
                 (''verified'', BoolCol [True, True, True, True]),
                 (''throughput'', FloatCol [Fin 2000, Fin 2000, Fin 2000, Fin 2000])]\<rparr>"

definition unordered_table :: dataframe where
  "unordered_table =
     \<lparr>index = [0, 1, 2],
      columns = [(''num_txns'', IntCol [100, 200, 300]),
                 (''elapsed_ms'', IntCol [50, 50, 50]),
                 (''num_keys'', IntCol [30, 10, 20]),
                 (''verified'', BoolCol [True, True, False])]\<rparr>"

definition unordered_metrics :: dataframe where
  "unordered_metrics =
     \<lparr>index = [0, 1, 2],
      columns = [(''num_txns'', IntCol [100, 200, 300]),
                 (''elapsed_ms'', IntCol [50, 50, 50]),
                 (''num_keys'', IntCol [30, 10, 20]),
                 (''verified'', BoolCol [True, True, False]),
                 (''throughput'', FloatCol [Fin 2000, Fin 4000, Fin 6000])]\<rparr>"

definition counted_table :: dataframe where
  "counted_table =
     \<lparr>index = [0, 1],
      columns = [(''num_txns'', IntCol [100, 200]),
                 (''elapsed_ms'', IntCol [50, 100]),
                 (''num_keys'', IntCol [10, 20]),
                 (''verified'', IntCol [0, 7])]\<rparr>"

definition counted_metrics :: dataframe where
  "counted_metrics =
     \<lparr>index = [0, 1],
      columns = [(''num_txns'', IntCol [100, 200]),
                 (''elapsed_ms'', IntCol [50, 100]),
                 (''num_keys'', IntCol [10, 20]),
                 (''verified'', BoolCol [False, True]),
                 (''throughput'', FloatCol [Fin 2000, Fin 2000])]\<rparr>"

definition labelled_table :: dataframe where
  "labelled_table =
     \<lparr>index = [0, 1, 2],
      columns = [(''num_txns'', IntCol [100, 200, 300]),
                 (''elapsed_ms'', IntCol [50, 50, 50]),
                 (''num_keys'', ObjCol [PStr ''a'', PFloat NaN, PStr ''b'']),
                 (''verified'', BoolCol [True, True, True])]\<rparr>"

definition labelled_metrics :: dataframe where
  "labelled_metrics =
     \<lparr>index = [0, 1, 2],
      columns = [(''num_txns'', IntCol [100, 200, 300]),
                 (''elapsed_ms'', IntCol [50, 50, 50]),
                 (''num_keys'', ObjCol [PStr ''a'', PFloat NaN, PStr ''b'']),
                 (''verified'', BoolCol [True, True, True]),
                 (''throughput'', FloatCol [Fin 2000, Fin 4000, Fin 6000])]\<rparr>"

definition header_only_table :: dataframe where
  "header_only_table =
     \<lparr>index = [],
      columns = [(''num_txns'', ObjCol []),
                 (''elapsed_ms'', ObjCol []),
                 (''num_keys'', ObjCol []),
                 (''verified'', ObjCol [])]\<rparr>"

definition headless_table :: dataframe where
  "headless_table =
     \<lparr>index = [0, 1],
      columns = [(''elapsed_ms'', IntCol [50, 100]),
                 (''num_keys'', IntCol [10, 20]),
                 (''verified'', BoolCol [True, False])]\<rparr>"

text \<open>A working directory that holds the table as \<^verbatim>\<open>measurements.csv\<close> and nothing
  else, and one where that file exists and cannot be read, so that a path through it
  names no directory; every output name can be written.\<close>

definition world_of :: "dataframe \<Rightarrow> world" where
  "world_of df =
     \<lparr>files = (\<lambda>p. if p = ''measurements.csv'' then Table df else Raises (FileNotFoundError p)),
      save_error = (\<lambda>name. None),
      outputs = Map.empty,
      console = []\<rparr>"

definition locked_world :: world where
  "locked_world =
     \<lparr>files = (\<lambda>p. if p = ''measurements.csv'' then Raises (PermissionError p)
                   else if p = ''measurements.csv/x'' then Raises (NotADirectoryError p)
                   else Raises (FileNotFoundError p)),
      save_error = (\<lambda>name. None),
      outputs = Map.empty,
      console = []\<rparr>"

section \<open>Facts about the library operations\<close>

lemma and_then_Inl [simp]: "and_then (Inl e) f = Inl e"
  by (simp add: and_then_def)

lemma and_then_Inr [simp]: "and_then (Inr x) f = f x"
  by (simp add: and_then_def)

lemma and_then_eq_Inr: "and_then r f = Inr y \<longleftrightarrow> (\<exists>x. r = Inr x \<and> f x = Inr y)"
  by (cases r) simp_all

lemma map_of_assign_col:
  "map_of (assign_col k c xs) k' = (if k' = k then Some c else map_of xs k')"
  by (induction xs) auto

lemma names_assign_col:
  "map fst (assign_col k c xs) = (if k \<in> set (map fst xs) then map fst xs else map fst xs @ [k])"
  by (induction xs) auto

lemma getitem_setitem:
  "getitem (setitem df k c) k' = (if k' = k then Inr c else getitem df k')"
  by (simp add: getitem_def setitem_def map_of_assign_col)

lemma index_setitem [simp]: "index (setitem df k c) = index df"
  by (simp add: setitem_def)

lemma log_metrics_eq: "log_metrics df = linear_metrics df"
  by (simp add: log_metrics_def linear_metrics_def)

lemma linear_metrics_Inr:
  "linear_metrics df = Inr df' \<longleftrightarrow>
     (\<exists>nc ec tc vc. getitem df ''num_txns'' = Inr nc \<and> getitem df ''elapsed_ms'' = Inr ec
        \<and> truediv (mul_scalar nc 1000) ec = Inr tc \<and> getitem df ''verified'' = Inr vc
        \<and> df' = setitem (setitem df ''throughput'' tc) ''verified'' (astype_bool vc))"
  by (auto simp add: linear_metrics_def and_then_eq_Inr Let_def getitem_setitem)

lemma sint_mul_1000:
  fixes x :: "64 word"
  assumes "- (2 ^ 63) \<le> sint x * 1000" "sint x * 1000 < 2 ^ 63"
  shows "sint (x * 1000) = sint x * 1000"
proof -
  have "sint (x * 1000) = signed_take_bit 63 (sint x * sint (1000 :: 64 word))"
    by (simp add: sint_word_ariths)
  also have "sint (1000 :: 64 word) = 1000" by simp
  finally show ?thesis using assms by (simp add: signed_take_bit_int_eq_self)
qed

lemma overflow_bound_ge: "2 ^ 1023 \<le> overflow_bound"
  by (simp add: overflow_bound_def)

lemma underflow_bound_less: "underflow_bound < 1 / 2 ^ 1022"
  by (simp add: underflow_bound_def)

lemma underflow_bound_pos: "0 < underflow_bound"
  by (simp add: underflow_bound_def)

lemma make_float_zero [simp]: "make_float neg 0 = signed_zero neg"
  using overflow_bound_ge underflow_bound_pos by (simp add: make_float_def)

lemma make_float_normal:
  assumes "normal_range q" "q \<noteq> 0"
  shows "make_float (q < 0) \<bar>q\<bar> = Fin q"
proof -
  from assms have "1 / 2 ^ 1022 \<le> \<bar>q\<bar>" "\<bar>q\<bar> < 2 ^ 1023"
    by (simp_all add: normal_range_def)
  then have "\<not> overflow_bound \<le> \<bar>q\<bar>" "\<not> \<bar>q\<bar> \<le> underflow_bound"
    using overflow_bound_ge underflow_bound_less by linarith+
  then show ?thesis by (simp add: make_float_def abs_if)
qed

lemma float_value_signed_zero [simp]: "float_value (signed_zero neg) = Some 0"
  by (simp add: signed_zero_def)

lemma finite_float:
  assumes "float_value x = Some p"
  shows "x \<noteq> NaN \<and> magnitude x = Some \<bar>p\<bar> \<and> (p \<noteq> 0 \<longrightarrow> x = Fin p)"
  using assms by (cases x) auto

lemma quotient_negative:
  fixes p e :: rat
  assumes "p \<noteq> 0" "e \<noteq> 0"
  shows "((p < 0) \<noteq> (e < 0)) = (p / e < 0)"
  using assms by (auto simp add: divide_less_0_iff)

lemma fdiv_finite:
  assumes x: "float_value x = Some p" and y: "float_value y = Some e"
  shows "(e \<noteq> 0 \<and> normal_range (p / e) \<longrightarrow> float_value (fdiv x y) = Some (p / e))
       \<and> (e = 0 \<longrightarrow> fdiv x y = (if p = 0 then NaN else infinity ((p < 0) \<noteq> negative y)))"
proof -
  from finite_float [OF x] have fx: "x \<noteq> NaN" "magnitude x = Some \<bar>p\<bar>" "p \<noteq> 0 \<Longrightarrow> x = Fin p"
    by simp_all
  from finite_float [OF y] have fy: "y \<noteq> NaN" "magnitude y = Some \<bar>e\<bar>" "e \<noteq> 0 \<Longrightarrow> y = Fin e"
    by simp_all
  have d: "fdiv x y =
      (if e = 0 then (if p = 0 then NaN else infinity (negative x \<noteq> negative y))
       else make_float (negative x \<noteq> negative y) (\<bar>p\<bar> / \<bar>e\<bar>))"
    using fx(1,2) fy(1,2) by (simp add: fdiv_def)
  have 1: "float_value (fdiv x y) = Some (p / e)" if e: "e \<noteq> 0" and n: "normal_range (p / e)"
  proof (cases "p = 0")
    case True
    with e show ?thesis by (simp add: d)
  next
    case False
    with e have q: "p / e \<noteq> 0" by simp
    from False e have "x = Fin p" "y = Fin e" by (simp_all add: fx fy)
    then have "negative x \<noteq> negative y \<longleftrightarrow> p / e < 0"
      using quotient_negative [OF False e] by simp
    then have "fdiv x y = make_float (p / e < 0) \<bar>p / e\<bar>"
      using e by (simp add: d)
    also have "\<dots> = Fin (p / e)" using n q by (rule make_float_normal)
    finally show ?thesis by simp
  qed
  have 2: "fdiv x y = (if p = 0 then NaN else infinity ((p < 0) \<noteq> negative y))" if e: "e = 0"
  proof (cases "p = 0")
    case True
    with e show ?thesis by (simp add: d)
  next
    case False
    then have "x = Fin p" by (rule fx(3))
    then have n: "negative x = (p < 0)" by simp
    from e False have "fdiv x y = infinity (negative x \<noteq> negative y)" by (simp add: d)
    then show ?thesis unfolding n using False by simp
  qed
  from 1 2 show ?thesis by blast
qed

lemma fmul_scale:
  assumes x: "float_value x = Some a" and n: "normal_range (a * 1000)"
  shows "float_value (fmul x (Fin 1000)) = Some (a * 1000)"
proof -
  from finite_float [OF x] have fx: "x \<noteq> NaN" "magnitude x = Some \<bar>a\<bar>" "a \<noteq> 0 \<Longrightarrow> x = Fin a"
    by simp_all
  have m: "fmul x (Fin 1000) = make_float (negative x) (\<bar>a\<bar> * 1000)"
    using fx(1,2) by (simp add: fmul_def)
  show ?thesis
  proof (cases "a = 0")
    case True
    then show ?thesis by (simp add: m)
  next
    case False
    then have "x = Fin a" by (rule fx(3))
    then have sg: "negative x = (a * 1000 < 0)" by (simp add: mult_less_0_iff)
    have "\<bar>a\<bar> * 1000 = \<bar>a * 1000\<bar>" by (simp add: abs_mult)
    then have "fmul x (Fin 1000) = make_float (a * 1000 < 0) \<bar>a * 1000\<bar>"
      unfolding m sg by simp
    also have "\<dots> = Fin (a * 1000)" using n False by (intro make_float_normal) simp_all
    finally show ?thesis by simp
  qed
qed

lemma scaled_value:
  assumes "i < col_len nc" "cell_value (cells nc ! i) = Some a" "no_overflow (cells nc ! i)"
  shows "\<not> is_object nc \<and> i < length (as_floats (mul_scalar nc 1000))
         \<and> float_value (as_floats (mul_scalar nc 1000) ! i) = Some (a * 1000)"
proof (cases nc)
  case (IntCol xs)
  with assms have i: "i < length xs" and a: "a = of_int (sint (xs ! i))"
    and r: "- (2 ^ 63) \<le> sint (xs ! i) * 1000" "sint (xs ! i) * 1000 < 2 ^ 63"
    by (simp_all add: col_len_def)
  have "sint (xs ! i * 1000) = sint (xs ! i) * 1000"
    using r by (rule sint_mul_1000)
  then have "(of_int (sint (xs ! i * 1000)) :: rat) = of_int (sint (xs ! i)) * 1000"
    by simp
  with IntCol i a show ?thesis by simp
next
  case (FloatCol xs)
  with assms have i: "i < length xs" and a: "float_value (xs ! i) = Some a"
    and n: "normal_range (a * 1000)"
    by (simp_all add: col_len_def)
  from fmul_scale [OF a n] FloatCol i show ?thesis by simp
next
  case (BoolCol xs)
  with assms have i: "i < length xs" and a: "a = (if xs ! i then 1 else 0)"
    by (auto simp add: col_len_def)
  with BoolCol show ?thesis by simp
next
  case (ObjCol xs)
  with assms show ?thesis by (simp add: col_len_def)
qed

lemma divisor_value:
  assumes "i < col_len ec" "cell_value (cells ec ! i) = Some e"
  shows "\<not> is_object ec \<and> i < length (as_floats ec)
         \<and> float_value (as_floats ec ! i) = Some e
         \<and> (e = 0 \<longrightarrow> negative (as_floats ec ! i) = negative_zero (cells ec ! i))"
proof (cases ec)
  case (IntCol xs)
  with assms show ?thesis by (auto simp add: col_len_def)
next
  case (FloatCol xs)
  with assms have i: "i < length xs" and a: "float_value (xs ! i) = Some e"
    by (simp_all add: col_len_def)
  from a have "e = 0 \<longrightarrow> negative (xs ! i) = negative_zero (CFloat (xs ! i))"
    by (cases "xs ! i") auto
  with FloatCol i a show ?thesis by simp
next
  case (BoolCol xs)
  with assms show ?thesis by (auto simp add: col_len_def)
next
  case (ObjCol xs)
  with assms show ?thesis by (simp add: col_len_def)
qed

lemma truediv_numeric:
  assumes "\<not> is_object l" "\<not> is_object r"
  shows "truediv l r = Inr (FloatCol (map (\<lambda>xy. fdiv (fst xy) (snd xy)) (zip (as_floats l) (as_floats r))))"
  using assms by (simp add: truediv_def)

lemma take_mask_filter: "take_mask m xs = map snd (filter fst (zip m xs))"
  by (induction m xs rule: take_mask.induct) simp_all

lemma take_mask_map: "take_mask m (map f xs) = map f (take_mask m xs)"
  by (induction m xs rule: take_mask.induct) simp_all

lemma take_mask_zip: "take_mask m (zip xs ys) = zip (take_mask m xs) (take_mask m ys)"
proof (induction m arbitrary: xs ys)
  case Nil
  show ?case by simp
next
  case (Cons b m)
  show ?case
  proof (cases xs)
    case Nil
    then show ?thesis by simp
  next
    case xs: (Cons x xs')
    show ?thesis
    proof (cases ys)
      case Nil
      then show ?thesis by (cases "take_mask (b # m) xs") simp_all
    next
      case (Cons y ys')
      with xs Cons.IH show ?thesis by simp
    qed
  qed
qed

lemma take_mask_Nil [simp]: "take_mask m [] = []"
  by (cases m) simp_all

lemma length_take_mask_split:
  "length m = length xs \<Longrightarrow>
     length (take_mask m xs) + length (take_mask (map Not m) xs) = length xs"
  by (induction m xs rule: take_mask.induct) simp_all

lemma subseq_take_mask: "subseq (take_mask m xs) xs"
  by (induction m xs rule: take_mask.induct) (auto intro: subseq_Cons')

lemma take_mask_pred: "take_mask (map P xs) xs = filter P xs"
  by (induction xs) simp_all

lemma cells_select_col: "cells (select_col m c) = take_mask m (cells c)"
  by (cases c) (simp_all add: take_mask_map)

lemma col_len_mul_scalar [simp]: "col_len (mul_scalar c n) = col_len c"
  by (cases c) (simp_all add: col_len_def)

lemma col_len_astype_bool [simp]: "col_len (astype_bool c) = col_len c"
  by (cases c) (simp_all add: col_len_def)

lemma length_as_floats: "\<not> is_object c \<Longrightarrow> length (as_floats c) = col_len c"
  by (cases c) (simp_all add: col_len_def)

lemma length_as_objects [simp]: "length (as_objects c) = col_len c"
  by (cases c) (simp_all add: col_len_def)

lemma length_obj_div_all:
  "obj_div_all as bs = Inr qs \<Longrightarrow> length qs = min (length as) (length bs)"
  by (induction as bs arbitrary: qs rule: obj_div_all.induct)
     (auto split: sum.splits)

lemma length_obj_div_masked:
  "obj_div_masked as bs = Inr qs \<Longrightarrow> length qs = min (length as) (length bs)"
  by (induction as bs arbitrary: qs rule: obj_div_masked.induct)
     (auto split: sum.splits if_splits)

lemma col_len_truediv:
  assumes "truediv l r = Inr t"
  shows "col_len t = min (col_len l) (col_len r)"
proof (cases "is_object l \<or> is_object r")
  case True
  with assms obtain qs where t: "t = ObjCol qs"
    and "obj_div_all (as_objects l) (as_objects r) = Inr qs
         \<or> obj_div_masked (as_objects l) (as_objects r) = Inr qs"
    by (auto simp add: truediv_def split: sum.splits error.splits)
  then have "length qs = min (col_len l) (col_len r)"
    using length_obj_div_all [of "as_objects l" "as_objects r" qs]
      length_obj_div_masked [of "as_objects l" "as_objects r" qs] by auto
  with t show ?thesis by (simp add: col_len_def)
next
  case False
  with assms show ?thesis
    by (auto simp add: truediv_def col_len_def length_as_floats [unfolded col_len_def])
qed

lemma map_of_map_snd:
  "map_of (map (\<lambda>nc. (fst nc, f (snd nc))) cs) k = map_option f (map_of cs k)"
  by (induction cs) auto

lemma take_mask_Cons_split:
  "l \<noteq> [] \<Longrightarrow> take_mask (b # ms) l = (if b then [hd l] else []) @ take_mask ms (tl l)"
  by (cases l) simp_all

lemma rows_of_take_mask:
  assumes "\<forall>nc \<in> set cs. length (snd nc) = length is"
  shows "rows_of (take_mask m is) (map (\<lambda>nc. (fst nc, take_mask m (snd nc))) cs)
         = take_mask m (rows_of is cs)"
  using assms
proof (induction "is" arbitrary: m cs)
  case Nil
  show ?case by simp
next
  case (Cons i "is")
  show ?case
  proof (cases m)
    case Nil
    then show ?thesis by simp
  next
    case m: (Cons b ms)
    let ?tl = "map (\<lambda>nc. (fst nc, tl (snd nc))) cs"
    have tl: "\<forall>nc \<in> set ?tl. length (snd nc) = length is"
      using Cons.prems by auto
    have ne: "\<And>nc. nc \<in> set cs \<Longrightarrow> snd nc \<noteq> []"
      using Cons.prems by auto
    have A: "map (\<lambda>nc. (fst nc, take_mask (b # ms) (snd nc))) cs
             = map (\<lambda>nc. (fst nc, (if b then [hd (snd nc)] else []) @ take_mask ms (tl (snd nc)))) cs"
      by (rule map_cong) (simp_all add: take_mask_Cons_split ne)
    have IH: "rows_of (take_mask ms is) (map (\<lambda>nc. (fst nc, take_mask ms (snd nc))) ?tl)
              = take_mask ms (rows_of is ?tl)"
      using tl by (rule Cons.IH)
    show ?thesis
      using IH unfolding m A by (cases b) (simp_all add: o_def)
  qed
qed

lemma rows_select_rows:
  assumes "wf_df df"
  shows "rows (select_rows df m) = take_mask m (rows df)"
proof -
  let ?cs = "map (\<lambda>nc. (fst nc, cells (snd nc))) (columns df)"
  have "\<forall>nc \<in> set ?cs. length (snd nc) = length (index df)"
    using assms by (auto simp add: wf_df_def list_all_iff col_len_def)
  from rows_of_take_mask [OF this, of m]
  show ?thesis
    by (simp add: rows_def select_rows_def o_def cells_select_col)
qed

lemma fst_rows_of [simp]: "map fst (rows_of is cs) = is"
  by (induction "is" arbitrary: cs) simp_all

lemma length_rows_of [simp]: "length (rows_of is cs) = length is"
  by (induction "is" arbitrary: cs) simp_all

lemma length_rows: "length (rows df) = length (index df)"
  by (simp add: rows_def)

lemma distinct_rows: "wf_df df \<Longrightarrow> distinct (rows df)"
  using distinct_map [of fst "rows df"] by (simp add: rows_def wf_df_def)

lemma rows_of_field:
  assumes "map_of cs k = Some (map f vs)" "length vs = length is"
  shows "map (\<lambda>r. map_of (snd r) k) (rows_of is cs) = map (\<lambda>v. Some (f v)) vs"
  using assms
proof (induction "is" arbitrary: cs vs)
  case Nil
  then show ?case by simp
next
  case (Cons i "is")
  then obtain v vs' where vs: "vs = v # vs'" by (cases vs) auto
  have "map_of (map (\<lambda>nc. (fst nc, tl (snd nc))) cs) k = Some (map f vs')"
    using Cons.prems vs by (simp add: map_of_map_snd)
  moreover have "length vs' = length is" using Cons.prems vs by simp
  ultimately have "map (\<lambda>r. map_of (snd r) k) (rows_of is (map (\<lambda>nc. (fst nc, tl (snd nc))) cs))
                   = map (\<lambda>v. Some (f v)) vs'"
    by (rule Cons.IH)
  moreover have "map_of (map (\<lambda>nc. (fst nc, hd (snd nc))) cs) k = Some (f v)"
    using Cons.prems vs by (simp add: map_of_map_snd)
  ultimately show ?case using vs by simp
qed

lemma take_mask_by_key:
  assumes "map g xs = map (\<lambda>v. Some (f v)) vs" and inj: "\<And>a b. f a = f b \<Longrightarrow> a = b"
  shows "take_mask (map (\<lambda>v. v = b) vs) xs = filter (\<lambda>x. g x = Some (f b)) xs"
  using assms(1)
proof (induction xs arbitrary: vs)
  case Nil
  then show ?case by simp
next
  case (Cons x xs)
  then obtain v vs' where vs: "vs = v # vs'" by (cases vs) auto
  with Cons.prems have "g x = Some (f v)" "map g xs = map (\<lambda>v. Some (f v)) vs'" by simp_all
  with Cons.IH [of vs'] vs show ?case using inj by auto
qed

lemma rows_by_verified:
  assumes "wf_df df" "getitem df ''verified'' = Inr (BoolCol vs)"
  shows "take_mask (map (\<lambda>v. v = b) vs) (rows df)
         = filter (\<lambda>r. field r ''verified'' = Some (CBool b)) (rows df)"
proof -
  let ?cs = "map (\<lambda>nc. (fst nc, cells (snd nc))) (columns df)"
  from assms(2) have m: "map_of (columns df) ''verified'' = Some (BoolCol vs)"
    by (simp add: getitem_def split: option.splits)
  then have "(''verified'', BoolCol vs) \<in> set (columns df)" by (rule map_of_SomeD)
  with assms(1) have len: "length vs = length (index df)"
    by (auto simp add: wf_df_def list_all_iff col_len_def)
  from m have "map_of ?cs ''verified'' = Some (map CBool vs)"
    by (simp add: map_of_map_snd)
  from rows_of_field [OF this len]
  have "map (\<lambda>r. field r ''verified'') (rows df) = map (\<lambda>v. Some (CBool v)) vs"
    by (simp add: rows_def field_def)
  then show ?thesis by (rule take_mask_by_key) simp
qed

lemma list_all_assign_col:
  "list_all P xs \<Longrightarrow> P (k, c) \<Longrightarrow> list_all P (assign_col k c xs)"
  by (induction xs) auto

lemma distinct_assign_col:
  "distinct (map fst xs) \<Longrightarrow> distinct (map fst (assign_col k c xs))"
  by (simp add: names_assign_col)

lemma wf_setitem:
  "wf_df df \<Longrightarrow> col_len c = length (index df) \<Longrightarrow> wf_df (setitem df k c)"
  by (simp add: wf_df_def setitem_def list_all_assign_col distinct_assign_col)

lemma getitem_col_len:
  assumes "wf_df df" "getitem df k = Inr c"
  shows "col_len c = length (index df)"
proof -
  from assms(2) have "map_of (columns df) k = Some c"
    by (simp add: getitem_def split: option.splits)
  then have "(k, c) \<in> set (columns df)" by (rule map_of_SomeD)
  with assms(1) show ?thesis by (auto simp add: wf_df_def list_all_iff)
qed

lemma wf_metrics:
  assumes "wf_df df0" "linear_metrics df0 = Inr df"
  shows "wf_df df"
proof -
  from assms(2) obtain nc ec tc vc where
    nc: "getitem df0 ''num_txns'' = Inr nc" and ec: "getitem df0 ''elapsed_ms'' = Inr ec"
    and tc: "truediv (mul_scalar nc 1000) ec = Inr tc"
    and vc: "getitem df0 ''verified'' = Inr vc"
    and df: "df = setitem (setitem df0 ''throughput'' tc) ''verified'' (astype_bool vc)"
    unfolding linear_metrics_Inr by blast
  have "col_len tc = length (index df0)"
    using col_len_truediv [OF tc] getitem_col_len [OF assms(1) nc]
      getitem_col_len [OF assms(1) ec] by simp
  then have "wf_df (setitem df0 ''throughput'' tc)"
    using assms(1) by (simp add: wf_setitem)
  moreover have "col_len (astype_bool vc) = length (index (setitem df0 ''throughput'' tc))"
    using getitem_col_len [OF assms(1) vc] by simp
  ultimately show ?thesis unfolding df by (rule wf_setitem)
qed

lemma astype_bool_is_bool: "\<exists>vs. astype_bool c = BoolCol vs"
  by (cases c) simp_all

lemma metrics_verified:
  assumes "linear_metrics df0 = Inr df"
  shows "\<exists>vs. getitem df ''verified'' = Inr (BoolCol vs)"
proof -
  from assms obtain tc vc where
    "df = setitem (setitem df0 ''throughput'' tc) ''verified'' (astype_bool vc)"
    unfolding linear_metrics_Inr by blast
  then show ?thesis using astype_bool_is_bool [of vc] by (auto simp add: getitem_setitem)
qed

lemma linear_partition_bool:
  assumes "getitem df ''verified'' = Inr (BoolCol vs)"
  shows "linear_partition df
         = Inr (select_rows df (map (\<lambda>v. v = True) vs), select_rows df (map (\<lambda>v. v = False) vs))"
  using assms by (simp add: linear_partition_def Let_def)

lemma log_partition_eq: "log_partition df = linear_partition df"
  by (simp add: log_partition_def linear_partition_def)

lemma verified_fields:
  assumes "wf_df df" "getitem df ''verified'' = Inr (BoolCol vs)"
  shows "map (\<lambda>r. field r ''verified'') (rows df) = map (\<lambda>v. Some (CBool v)) vs"
proof -
  let ?cs = "map (\<lambda>nc. (fst nc, cells (snd nc))) (columns df)"
  from assms(2) have m: "map_of (columns df) ''verified'' = Some (BoolCol vs)"
    by (simp add: getitem_def split: option.splits)
  have len: "length vs = length (index df)"
    using getitem_col_len [OF assms] by (simp add: col_len_def)
  from m have "map_of ?cs ''verified'' = Some (map CBool vs)"
    by (simp add: map_of_map_snd)
  from rows_of_field [OF this len] show ?thesis
    by (simp add: rows_def field_def)
qed

lemma linear_plot_cases:
  "linear_plot fig a b =
     and_then (getitem a ''num_keys'') (\<lambda>x1.
     and_then (getitem a ''throughput'') (\<lambda>y1.
     case plot_error x1 y1 of
       Some e \<Rightarrow> Inl e
     | None \<Rightarrow>
         and_then (getitem b ''num_keys'') (\<lambda>x2.
         and_then (getitem b ''throughput'') (\<lambda>y2.
         case plot_error x2 y2 of
           Some e \<Rightarrow> Inl e
         | None \<Rightarrow>
             Inr (fig\<lparr>plotted := plotted fig
                    @ [\<lparr>xdata = x1, ydata = y1, label = ''Verified = True'', marker = ''o'',
                        linestyle = ''-''\<rparr>,
                       \<lparr>xdata = x2, ydata = y2, label = ''Verified = False'', marker = ''o'',
                        linestyle = ''-''\<rparr>],
                   xlabel := ''Number of Keys (num_keys)'',
                   ylabel := ''Throughput (transactions/second)'',
                   title := ''Throughput vs. Number of Keys by Verification Status'',
                   legend_title := Some ''Verified'',
                   grid := Some \<lparr>grid_which = ''major'', grid_ls = None, grid_alpha = None\<rparr>\<rparr>)))))"
  by (simp add: linear_plot_def plt_plot_def and_then_def split: sum.splits option.splits)

lemma log_plot_cases:
  "log_plot fig a b =
     and_then (getitem a ''num_keys'') (\<lambda>x1.
     and_then (getitem a ''throughput'') (\<lambda>y1.
     case plot_error x1 y1 of
       Some e \<Rightarrow> Inl e
     | None \<Rightarrow>
         and_then (getitem b ''num_keys'') (\<lambda>x2.
         and_then (getitem b ''throughput'') (\<lambda>y2.
         case plot_error x2 y2 of
           Some e \<Rightarrow> Inl e
         | None \<Rightarrow>
             Inr (fig\<lparr>plotted := plotted fig
                    @ [\<lparr>xdata = x1, ydata = y1, label = ''Verified = True'', marker = ''o'',
                        linestyle = ''-''\<rparr>,
                       \<lparr>xdata = x2, ydata = y2, label = ''Verified = False'', marker = ''s'',
                        linestyle = ''--''\<rparr>],
                   yscale := Log,
                   xlabel := ''Number of Keys'',
                   ylabel := ''Throughput (txns/sec) - Log Scale'',
                   title := ''Throughput vs. Number of Keys'',
                   legend_title := Some ''Verified'',
                   grid := Some \<lparr>grid_which = ''both'', grid_ls = Some ''-'', grid_alpha = Some (1 / 2)\<rparr>\<rparr>)))))"
  by (simp add: log_plot_def plt_plot_def and_then_def split: sum.splits option.splits)

lemma series_second_dashed:
  "map (\<lambda>s. (xdata s, ydata s)) (second_dashed ss) = map (\<lambda>s. (xdata s, ydata s)) ss"
  by (cases ss rule: second_dashed.cases) simp_all

lemma series_data_log_styled [simp]: "series_data (log_styled f) = series_data f"
  by (simp add: series_data_def log_styled_def series_second_dashed)

lemma log_plot_styled:
  assumes "plotted fig = []"
  shows "log_plot fig a b = (case linear_plot fig a b of Inl e \<Rightarrow> Inl e | Inr f \<Rightarrow> Inr (log_styled f))"
  using assms
  by (simp add: linear_plot_cases log_plot_cases and_then_def log_styled_def
      split: sum.splits option.splits)

lemma log_chart_styled:
  "log_chart df = (case linear_chart df of Inl e \<Rightarrow> Inl e | Inr f \<Rightarrow> Inr (log_styled f))"
proof (cases "linear_metrics df")
  case (Inl e)
  then show ?thesis by (simp add: linear_chart_def log_chart_def log_metrics_eq)
next
  case m: (Inr d)
  show ?thesis
  proof (cases "linear_partition d")
    case (Inl e)
    with m show ?thesis
      by (simp add: linear_chart_def log_chart_def log_metrics_eq log_partition_eq)
  next
    case (Inr parts)
    have "plotted (plt_figure (10, 6)) = []" by (simp add: plt_figure_def)
    from log_plot_styled [OF this] m Inr show ?thesis
      by (simp add: linear_chart_def log_chart_def log_metrics_eq log_partition_eq)
  qed
qed

lemma chart_series_Inl [simp]: "chart_series (Inl e) = Inl e"
  by (simp add: chart_series_def)


lemma run_linear_ok:
  assumes "files w p = Table df" "linear_chart df = Inr f" "save_error w ''linegraph.png'' = None"
  shows "generate_throughput_linegraph p w
         = (Returned, print (w\<lparr>outputs := (outputs w)(''linegraph.png'' \<mapsto> f)\<rparr>)
                        ''Line graph saved to linegraph.png'')"
  using assms
  by (simp add: generate_throughput_linegraph_def linear_body_def read_csv_def savefig_def)

lemma run_log_ok:
  assumes "files w p = Table df" "log_chart df = Inr g" "save_error w ''linegraph_log.png'' = None"
  shows "generate_log_linegraph p w
         = (Returned, print (w\<lparr>outputs := (outputs w)(''linegraph_log.png'' \<mapsto> g)\<rparr>)
                        ''Graph saved to linegraph_log.png'')"
  using assms
  by (simp add: generate_log_linegraph_def read_csv_def savefig_def)

lemma getitem_select_rows:
  "getitem (select_rows df m) k
   = (case getitem df k of Inl e \<Rightarrow> Inl e | Inr c \<Rightarrow> Inr (select_col m c))"
  by (simp add: getitem_def select_rows_def map_of_map_snd split: option.splits)

lemma plot_error_empty:
  assumes "cells x = []" "cells y = []"
  shows "plot_error x y = None"
  using assms by (cases x; cases y) (simp_all add: plot_error_def col_len_def categorical_def)

text \<open>The chart of the linear pipeline, from the columns of the table with its metrics.\<close>

lemma linear_chart_cases:
  assumes m: "linear_metrics df0 = Inr df"
    and gk: "getitem df ''num_keys'' = Inr kc"
    and gt: "getitem df ''throughput'' = Inr tc"
    and gv: "getitem df ''verified'' = Inr (BoolCol vs)"
  shows "linear_chart df0 =
     (case first_error [plot_error (select_col vs kc) (select_col vs tc),
                        plot_error (select_col (map Not vs) kc) (select_col (map Not vs) tc)] of
        Some e \<Rightarrow> Inl e
      | None \<Rightarrow>
          Inr \<lparr>figsize = (10, 6),
               plotted =
                 [\<lparr>xdata = select_col vs kc, ydata = select_col vs tc,
                   label = ''Verified = True'', marker = ''o'', linestyle = ''-''\<rparr>,
                  \<lparr>xdata = select_col (map Not vs) kc, ydata = select_col (map Not vs) tc,
                   label = ''Verified = False'', marker = ''o'', linestyle = ''-''\<rparr>],
               yscale = Linear,
               xlabel = ''Number of Keys (num_keys)'',
               ylabel = ''Throughput (transactions/second)'',
               title = ''Throughput vs. Number of Keys by Verification Status'',
               legend_title = Some ''Verified'',
               grid = Some \<lparr>grid_which = ''major'', grid_ls = None, grid_alpha = None\<rparr>\<rparr>)"
proof -
  have eqT: "map (\<lambda>v. v = True) vs = vs" by (simp add: map_idI)
  have eqF: "map (\<lambda>v. v = False) vs = map Not vs" by simp
  have p: "linear_partition df = Inr (select_rows df vs, select_rows df (map Not vs))"
    using linear_partition_bool [OF gv] unfolding eqT eqF .
  show ?thesis
    by (simp add: linear_chart_def m p Let_def linear_plot_cases getitem_select_rows gk gt
        plt_figure_def split: option.splits)
qed

lemma metrics_columns:
  assumes m: "linear_metrics df0 = Inr df"
  shows "\<exists>tc vs. getitem df ''throughput'' = Inr tc \<and> getitem df ''verified'' = Inr (BoolCol vs)
           \<and> getitem df ''num_keys'' = getitem df0 ''num_keys''"
proof -
  from m obtain tc vc where
    df: "df = setitem (setitem df0 ''throughput'' tc) ''verified'' (astype_bool vc)"
    unfolding linear_metrics_Inr by blast
  obtain vs where vs: "astype_bool vc = BoolCol vs" using astype_bool_is_bool by blast
  have "getitem df ''throughput'' = Inr tc" "getitem df ''verified'' = Inr (BoolCol vs)"
    "getitem df ''num_keys'' = getitem df0 ''num_keys''"
    using vs by (simp_all add: df getitem_setitem)
  then show ?thesis by blast
qed

lemma chart_result:
  assumes m: "linear_metrics df0 = Inr df" and k: "getitem df0 ''num_keys'' = Inr kc"
  shows "\<exists>tc vs.
           getitem df ''throughput'' = Inr tc
         \<and> getitem df ''verified'' = Inr (BoolCol vs)
         \<and> (\<forall>e. first_error [plot_error (select_col vs kc) (select_col vs tc),
                    plot_error (select_col (map Not vs) kc) (select_col (map Not vs) tc)] = Some e
               \<longrightarrow> linear_chart df0 = Inl e \<and> log_chart df0 = Inl e)
         \<and> (first_error [plot_error (select_col vs kc) (select_col vs tc),
                    plot_error (select_col (map Not vs) kc) (select_col (map Not vs) tc)] = None
               \<longrightarrow> (\<exists>f. linear_chart df0 = Inr f \<and> log_chart df0 = Inr (log_styled f)
                     \<and> series_data f
                       = [(select_col vs kc, select_col vs tc),
                          (select_col (map Not vs) kc, select_col (map Not vs) tc)]))"
proof -
  from metrics_columns [OF m] k obtain tc vs where
    gt: "getitem df ''throughput'' = Inr tc" and gv: "getitem df ''verified'' = Inr (BoolCol vs)"
    and gk: "getitem df ''num_keys'' = Inr kc"
    by auto
  note c = linear_chart_cases [OF m gk gt gv]
  let ?fe = "first_error [plot_error (select_col vs kc) (select_col vs tc),
                    plot_error (select_col (map Not vs) kc) (select_col (map Not vs) tc)]"
  have 1: "\<forall>e. ?fe = Some e \<longrightarrow> linear_chart df0 = Inl e \<and> log_chart df0 = Inl e"
    by (simp add: c log_chart_styled)
  have 2: "?fe = None \<longrightarrow> (\<exists>f. linear_chart df0 = Inr f \<and> log_chart df0 = Inr (log_styled f)
                     \<and> series_data f
                       = [(select_col vs kc, select_col vs tc),
                          (select_col (map Not vs) kc, select_col (map Not vs) tc)])"
    by (simp add: c log_chart_styled series_data_def)
  show ?thesis
    by (rule exI [of _ tc], rule exI [of _ vs]) (intro conjI gt gv 1 2)
qed


lemma points_select:
  "zip (cells (select_col m kc)) (cells (select_col m tc))
   = map snd (filter fst (zip m (zip (cells kc) (cells tc))))"
  unfolding cells_select_col take_mask_zip [symmetric] by (rule take_mask_filter)

lemma filter_negated_mask:
  "map snd (filter fst (zip (map Not vs) xs)) = map snd (filter (\<lambda>p. \<not> fst p) (zip vs xs))"
proof (induction vs arbitrary: xs)
  case Nil
  show ?case by simp
next
  case (Cons v vs)
  then show ?case by (cases xs) simp_all
qed

lemma names_setitem:
  "map fst (columns (setitem df k c))
   = (if k \<in> set (map fst (columns df)) then map fst (columns df) else map fst (columns df) @ [k])"
  by (simp add: setitem_def names_assign_col)

lemma getitem_name: "getitem df k = Inr c \<Longrightarrow> k \<in> set (map fst (columns df))"
  by (auto simp add: getitem_def split: option.splits dest!: map_of_SomeD intro: rev_image_eqI)

lemma signed_rat_zero_iff: "(signed (x :: 64 word) :: rat) = 0 \<longleftrightarrow> x = 0"
proof -
  have "(signed x :: rat) = of_int (sint x)" by simp
  then show ?thesis by (simp only: of_int_eq_0_iff signed_eq_0_iff)
qed

lemma cells_astype_bool:
  assumes i: "i < col_len c"
  shows "\<exists>b. cells (astype_bool c) ! i = CBool b
     \<and> (\<forall>f. cell_number (cells c ! i) = Some f \<and> is_zero f \<longrightarrow> \<not> b)
     \<and> (\<forall>f. cell_number (cells c ! i) = Some f \<and> \<not> is_zero f \<longrightarrow> b)
     \<and> (\<forall>t. cell_boolean (cells c ! i) = Some t \<longrightarrow> b = t)
     \<and> (\<forall>s. cell_text (cells c ! i) = Some s \<and> s \<noteq> [] \<longrightarrow> b)"
proof (cases c)
  case (IntCol xs)
  with i have "i < length xs" by (simp add: col_len_def)
  with IntCol show ?thesis by (auto simp add: signed_rat_zero_iff)
next
  case (FloatCol xs)
  with i have "i < length xs" by (simp add: col_len_def)
  with FloatCol show ?thesis by auto
next
  case (BoolCol xs)
  with i have "i < length xs" by (simp add: col_len_def)
  with BoolCol show ?thesis by auto
next
  case (ObjCol xs)
  with i have "i < length xs" by (simp add: col_len_def)
  with ObjCol show ?thesis by (cases "xs ! i") auto
qed

lemma lower_Nil [simp]: "lower [] = []"
  by (simp add: lower_def)

lemma lower_eq_Nil [simp]: "lower s = [] \<longleftrightarrow> s = []"
  by (simp add: lower_def)

lemma float_against_spec:
  "spec_coerce (CFloat f) = Some b \<Longrightarrow> (\<not> is_zero f) = (b \<or> is_missing (CFloat f))"
  by (cases f) auto

lemma object_against_spec:
  "spec_coerce (CObj x) = Some b \<Longrightarrow>
     py_bool x = (b \<or> is_missing (CObj x) \<or> is_false_text (CObj x))"
proof (cases x)
  case (PStr s)
  assume "spec_coerce (CObj x) = Some b"
  with PStr show ?thesis by (auto split: if_splits)
next
  case (PFloat f)
  assume "spec_coerce (CObj x) = Some b"
  with PFloat show ?thesis by (cases f) auto
qed auto

lemma cells_against_spec:
  assumes i: "i < col_len c" and s: "spec_coerce (cells c ! i) = Some b"
  shows "cells (astype_bool c) ! i
         = CBool (b \<or> is_missing (cells c ! i) \<or> is_false_text (cells c ! i))"
proof (cases c)
  case (IntCol xs)
  with i have "i < length xs" by (simp add: col_len_def)
  with IntCol s show ?thesis by auto
next
  case (FloatCol xs)
  with i have l: "i < length xs" by (simp add: col_len_def)
  with FloatCol s have "spec_coerce (CFloat (xs ! i)) = Some b" by simp
  from float_against_spec [OF this] FloatCol l show ?thesis by simp
next
  case (BoolCol xs)
  with i have "i < length xs" by (simp add: col_len_def)
  with BoolCol s show ?thesis by auto
next
  case (ObjCol xs)
  with i have l: "i < length xs" by (simp add: col_len_def)
  with ObjCol s have "spec_coerce (CObj (xs ! i)) = Some b" by simp
  from object_against_spec [OF this] ObjCol l show ?thesis by simp
qed

lemma outputs_print [simp]: "outputs (print w s) = outputs w"
  by (simp add: print_def)

lemma console_print [simp]: "console (print w s) = console w @ [s]"
  by (simp add: print_def)


lemma linear_body_Inl_cases:
  "linear_body p w = Inl e \<longleftrightarrow>
     read_csv w p = Inl e
   \<or> (\<exists>df. read_csv w p = Inr df \<and> linear_chart df = Inl e)
   \<or> (\<exists>df fig. read_csv w p = Inr df \<and> linear_chart df = Inr fig
         \<and> savefig w ''linegraph.png'' fig = Inl e)"
  by (auto simp add: linear_body_def and_then_def split: sum.splits)


lemma log_uncaught_load:
  assumes "read_csv w p = Inl e" "\<not> is_file_not_found e"
  shows "generate_log_linegraph p w = (Crashed e, w)"
  using assms by (cases e) (simp_all add: generate_log_linegraph_def)

lemma truediv_empty:
  assumes "col_len l = 0"
  shows "\<exists>t. truediv l r = Inr t"
proof (cases "is_object l \<or> is_object r")
  case True
  from assms have "as_objects l = []" by (cases l) (simp_all add: col_len_def)
  with True show ?thesis by (simp add: truediv_def)
next
  case False
  then show ?thesis by (simp add: truediv_def)
qed

lemma empty_cells: "col_len c = 0 \<Longrightarrow> cells c = []"
  by (simp add: col_len_def)














lemma points_series:
  "map points (plotted h) = map (\<lambda>xy. zip (cells (fst xy)) (cells (snd xy))) (series_data h)"
  by (simp add: points_def series_data_def o_def)

lemmas eval_defs = linear_metrics_def getitem_def setitem_def truediv_def fdiv_def fmul_def
  make_float_def overflow_bound_def underflow_bound_def

section \<open>The throughput field\<close>

text \<open>
  C1 (amended). In both pipelines the metric step succeeds on a table that has the
  columns \<^verbatim>\<open>num_txns\<close>, \<^verbatim>\<open>elapsed_ms\<close> and \<^verbatim>\<open>verified\<close>. For every record whose
  \<^verbatim>\<open>num_txns\<close> and \<^verbatim>\<open>elapsed_ms\<close> are finite numbers of a numeric column
  (\<^verbatim>\<open>int64\<close>, \<^verbatim>\<open>float64\<close> or \<^verbatim>\<open>bool\<close>), with \<^verbatim>\<open>num_txns * 1000\<close> inside the 64-bit
  range when the column is \<^verbatim>\<open>int64\<close> and zero or inside the normal \<^verbatim>\<open>float64\<close> range when
  it is \<^verbatim>\<open>float64\<close>, the throughput field is a float: when \<^verbatim>\<open>elapsed_ms\<close> is not zero and
  the exact quotient \<^verbatim>\<open>num_txns * 1000 / elapsed_ms\<close> is zero or inside the normal range,
  the field has that value; when \<^verbatim>\<open>elapsed_ms\<close> is zero the field is not-a-number for
  \<^verbatim>\<open>num_txns = 0\<close> and otherwise an infinity, whose sign is that of \<^verbatim>\<open>num_txns\<close>,
  reversed when \<^verbatim>\<open>elapsed_ms\<close> is the negative zero.
\<close>

theorem throughput_formula:
  assumes nc: "getitem df ''num_txns'' = Inr nc"
    and ec: "getitem df ''elapsed_ms'' = Inr ec"
    and vc: "getitem df ''verified'' = Inr vc"
    and i: "i < col_len nc" "i < col_len ec"
    and a: "cell_value (cells nc ! i) = Some a"
    and e: "cell_value (cells ec ! i) = Some e"
    and ov: "no_overflow (cells nc ! i)"
  shows "\<exists>df' tc r. linear_metrics df = Inr df' \<and> log_metrics df = Inr df'
           \<and> getitem df' ''throughput'' = Inr tc \<and> i < col_len tc
           \<and> cells tc ! i = CFloat r
           \<and> (e \<noteq> 0 \<and> normal_range (a * 1000 / e) \<longrightarrow> float_value r = Some (a * 1000 / e))
           \<and> (e = 0 \<longrightarrow>
                r = (if a = 0 then NaN
                     else if (a < 0) = negative_zero (cells ec ! i) then PInf else NInf))"
proof -
  let ?l = "mul_scalar nc 1000"
  let ?tc = "FloatCol (map (\<lambda>xy. fdiv (fst xy) (snd xy)) (zip (as_floats ?l) (as_floats ec)))"
  let ?df = "setitem (setitem df ''throughput'' ?tc) ''verified'' (astype_bool vc)"
  let ?x = "as_floats ?l ! i"
  let ?y = "as_floats ec ! i"
  from scaled_value [OF i(1) a ov]
  have l: "\<not> is_object nc" "i < length (as_floats ?l)" "float_value ?x = Some (a * 1000)"
    by simp_all
  from divisor_value [OF i(2) e]
  have r: "\<not> is_object ec" "i < length (as_floats ec)" "float_value ?y = Some e"
    "e = 0 \<longrightarrow> negative ?y = negative_zero (cells ec ! i)"
    by simp_all
  from l(1) have "\<not> is_object ?l" by (cases nc) simp_all
  then have t: "truediv ?l ec = Inr ?tc" using r(1) by (rule truediv_numeric)
  have m: "linear_metrics df = Inr ?df"
    unfolding linear_metrics_Inr using nc ec vc t by blast
  have lg: "log_metrics df = Inr ?df" using m by (simp add: log_metrics_eq)
  have g: "getitem ?df ''throughput'' = Inr ?tc"
    by (simp add: getitem_setitem)
  have len: "i < col_len ?tc" using l(2) r(2) by (simp add: col_len_def)
  have c: "cells ?tc ! i = CFloat (fdiv ?x ?y)"
    using l(2) r(2) by simp
  note d = fdiv_finite [OF l(3) r(3)]
  from d have q: "e \<noteq> 0 \<and> normal_range (a * 1000 / e) \<longrightarrow>
      float_value (fdiv ?x ?y) = Some (a * 1000 / e)"
    by (rule conjunct1)
  from d r(4) have z: "e = 0 \<longrightarrow>
      fdiv ?x ?y = (if a = 0 then NaN
                    else if (a < 0) = negative_zero (cells ec ! i) then PInf else NInf)"
    by (auto simp add: infinity_def mult_less_0_iff)
  show ?thesis
    by (rule exI [of _ ?df], rule exI [of _ ?tc], rule exI [of _ "fdiv ?x ?y"])
       (intro conjI m lg g len c q z)
qed

text \<open>The second row of the specification's example: 200 transactions in 100 ms are
  2000 transactions per second. The first row of the measurements written as decimals:
  one transaction in \<^verbatim>\<open>-0.0\<close> ms gives the negative infinity.\<close>

theorem throughput_formula_witness:
  "(\<exists>df' tc r. linear_metrics example_table = Inr df' \<and> log_metrics example_table = Inr df'
      \<and> getitem df' ''throughput'' = Inr tc \<and> 1 < col_len tc
      \<and> cells tc ! 1 = CFloat r \<and> float_value r = Some 2000)
   \<and> (\<exists>df' tc. linear_metrics decimal_table = Inr df' \<and> log_metrics decimal_table = Inr df'
      \<and> getitem df' ''throughput'' = Inr tc \<and> 0 < col_len tc
      \<and> cells tc ! 0 = CFloat NInf)"
proof -
  have n: "normal_range 2000" "normal_range 1000" "normal_range 200000"
    by (simp_all add: normal_range_def)
  have 1: "getitem example_table ''num_txns'' = Inr (IntCol [100, 200])"
    "getitem example_table ''elapsed_ms'' = Inr (IntCol [50, 100])"
    "getitem example_table ''verified'' = Inr (BoolCol [True, False])"
    "1 < col_len (IntCol [100, 200])" "1 < col_len (IntCol [50, 100])"
    "cell_value (cells (IntCol [100, 200]) ! 1) = Some 200"
    "cell_value (cells (IntCol [50, 100]) ! 1) = Some 100"
    "no_overflow (cells (IntCol [100, 200]) ! 1)"
    by (simp_all add: example_table_def getitem_def col_len_def)
  from throughput_formula [OF 1] n(1)
  have A: "\<exists>df' tc r. linear_metrics example_table = Inr df' \<and> log_metrics example_table = Inr df'
      \<and> getitem df' ''throughput'' = Inr tc \<and> 1 < col_len tc
      \<and> cells tc ! 1 = CFloat r \<and> float_value r = Some 2000"
    by simp
  have 2: "getitem decimal_table ''num_txns'' = Inr (FloatCol [Fin 1, Fin (- 1), Fin (10 ^ 308), Fin (5 / 2)])"
    "getitem decimal_table ''elapsed_ms'' = Inr (FloatCol [NZero, NZero, Fin 1, Fin (1 / 2)])"
    "getitem decimal_table ''verified'' = Inr (BoolCol [True, False, True, False])"
    "0 < col_len (FloatCol [Fin 1, Fin (- 1), Fin (10 ^ 308), Fin (5 / 2)])"
    "0 < col_len (FloatCol [NZero, NZero, Fin 1, Fin (1 / 2)])"
    "cell_value (cells (FloatCol [Fin 1, Fin (- 1), Fin (10 ^ 308), Fin (5 / 2)]) ! 0) = Some 1"
    "cell_value (cells (FloatCol [NZero, NZero, Fin 1, Fin (1 / 2)]) ! 0) = Some 0"
    "no_overflow (cells (FloatCol [Fin 1, Fin (- 1), Fin (10 ^ 308), Fin (5 / 2)]) ! 0)"
    by (simp_all add: decimal_table_def getitem_def col_len_def n)
  from throughput_formula [OF 2]
  have B: "\<exists>df' tc. linear_metrics decimal_table = Inr df' \<and> log_metrics decimal_table = Inr df'
      \<and> getitem df' ''throughput'' = Inr tc \<and> 0 < col_len tc
      \<and> cells tc ! 0 = CFloat NInf"
    by simp
  from A B show ?thesis by (rule conjI)
qed

text \<open>
  As stated for every record, the claim fails: a record with \<^verbatim>\<open>elapsed_ms = 0\<close> gets
  an infinite throughput; for \<^verbatim>\<open>num_txns = 10000000000000000\<close> the \<^verbatim>\<open>int64\<close> product
  wraps around and the throughput is negative; and for the decimal \<^verbatim>\<open>num_txns = 1e308\<close>
  the product is already infinite.
\<close>

theorem throughput_formula_counterexample:
  "column_after linear_metrics ''throughput'' extreme_table = Inr (FloatCol [PInf, Fin (- 8446744073709551616)])
   \<and> column_after log_metrics ''throughput'' extreme_table = Inr (FloatCol [PInf, Fin (- 8446744073709551616)])
   \<and> Fin (- 8446744073709551616) \<noteq> Fin (10000000000000000 * 1000 / 1)
   \<and> column_after linear_metrics ''throughput'' decimal_table = Inr (FloatCol [NInf, PInf, PInf, Fin 5000])
   \<and> column_after log_metrics ''throughput'' decimal_table = Inr (FloatCol [NInf, PInf, PInf, Fin 5000])"
  by (simp add: column_after_def log_metrics_def eval_defs extreme_table_def decimal_table_def
      infinity_def signed_zero_def)

section \<open>The two partitions\<close>

text \<open>
  C2. For every well-formed input table on which the metric step succeeds, the
  partitioner of either pipeline returns two tables whose records are exactly the
  records with \<^verbatim>\<open>verified\<close> true and exactly those with \<^verbatim>\<open>verified\<close> false, each in
  the order of the table: the two lengths add up to the length of the table, the
  records of the table are pairwise different, and each of them is in one partition and
  not in the other.
\<close>

theorem partition_split:
  assumes "wf_df df0" and "linear_metrics df0 = Inr df"
  shows "\<exists>df_true df_false.
           linear_partition df = Inr (df_true, df_false)
         \<and> log_partition df = Inr (df_true, df_false)
         \<and> length (rows df_true) + length (rows df_false) = length (rows df)
         \<and> rows df_true = filter (\<lambda>r. field r ''verified'' = Some (CBool True)) (rows df)
         \<and> rows df_false = filter (\<lambda>r. field r ''verified'' = Some (CBool False)) (rows df)
         \<and> distinct (rows df)
         \<and> (\<forall>r \<in> set (rows df). (r \<in> set (rows df_true)) \<noteq> (r \<in> set (rows df_false)))
         \<and> subseq (rows df_true) (rows df) \<and> subseq (rows df_false) (rows df)"
proof -
  from assms have wf: "wf_df df" by (rule wf_metrics)
  from assms(2) obtain vs where vs: "getitem df ''verified'' = Inr (BoolCol vs)"
    using metrics_verified by blast
  let ?t = "select_rows df (map (\<lambda>v. v = True) vs)"
  let ?f = "select_rows df (map (\<lambda>v. v = False) vs)"
  have len: "length vs = length (rows df)"
    using getitem_col_len [OF wf vs] by (simp add: col_len_def length_rows)
  have p: "linear_partition df = Inr (?t, ?f)" using vs by (rule linear_partition_bool)
  have rt: "rows ?t = take_mask (map (\<lambda>v. v = True) vs) (rows df)"
    and rf: "rows ?f = take_mask (map (\<lambda>v. v = False) vs) (rows df)"
    using wf by (rule rows_select_rows)+
  have ft: "rows ?t = filter (\<lambda>r. field r ''verified'' = Some (CBool True)) (rows df)"
    and ff: "rows ?f = filter (\<lambda>r. field r ''verified'' = Some (CBool False)) (rows df)"
    unfolding rt rf using wf vs by (rule rows_by_verified)+
  have "map (\<lambda>v. v = False) vs = map Not (map (\<lambda>v. v = True) vs)" by simp
  then have sum: "length (rows ?t) + length (rows ?f) = length (rows df)"
    unfolding rt rf using length_take_mask_split [of "map (\<lambda>v. v = True) vs" "rows df"] len
    by simp
  have each: "\<forall>r \<in> set (rows df). (r \<in> set (rows ?t)) \<noteq> (r \<in> set (rows ?f))"
  proof
    fix r assume r: "r \<in> set (rows df)"
    then have "field r ''verified'' \<in> set (map (\<lambda>r. field r ''verified'') (rows df))"
      by simp
    then have "field r ''verified'' \<in> set (map (\<lambda>v. Some (CBool v)) vs)"
      using verified_fields [OF wf vs] by simp
    then obtain v where "field r ''verified'' = Some (CBool v)" by auto
    with r show "(r \<in> set (rows ?t)) \<noteq> (r \<in> set (rows ?f))"
      unfolding ft ff by (cases v) simp_all
  qed
  have sub: "subseq (rows ?t) (rows df)" "subseq (rows ?f) (rows df)"
    unfolding rt rf by (rule subseq_take_mask)+
  from p sum ft ff each sub distinct_rows [OF wf] show ?thesis
    unfolding log_partition_eq by blast
qed

text \<open>The two rows of the example go one to each partition.\<close>

theorem partition_split_witness:
  "\<exists>df_true df_false.
           linear_partition example_metrics = Inr (df_true, df_false)
         \<and> log_partition example_metrics = Inr (df_true, df_false)
         \<and> length (rows df_true) + length (rows df_false) = length (rows example_metrics)
         \<and> rows df_true = filter (\<lambda>r. field r ''verified'' = Some (CBool True)) (rows example_metrics)
         \<and> rows df_false = filter (\<lambda>r. field r ''verified'' = Some (CBool False)) (rows example_metrics)
         \<and> distinct (rows example_metrics)
         \<and> (\<forall>r \<in> set (rows example_metrics). (r \<in> set (rows df_true)) \<noteq> (r \<in> set (rows df_false)))
         \<and> subseq (rows df_true) (rows example_metrics) \<and> subseq (rows df_false) (rows example_metrics)"
proof -
  have 1: "wf_df example_table"
    by (simp add: wf_df_def example_table_def col_len_def)
  have 2: "linear_metrics example_table = Inr example_metrics"
    by (simp add: eval_defs example_table_def example_metrics_def)
  show ?thesis by (rule partition_split [OF 1 2])
qed

section \<open>The two pipelines plot the same series\<close>




section \<open>The boolean coercion against the specification\<close>

text \<open>
  C4 (amended). Where the specification's coercion gives a value, the coercion of either
  pipeline gives the same value, except that it maps the text "false" (in any letter
  case) and the missing value of an empty cell to true.
\<close>

theorem coercion_against_spec:
  assumes v: "getitem df ''verified'' = Inr vc"
    and m: "linear_metrics df = Inr df'"
    and i: "i < col_len vc"
    and s: "spec_coerce (cells vc ! i) = Some b"
  shows "\<exists>vs. log_metrics df = Inr df'
     \<and> getitem df' ''verified'' = Inr (BoolCol vs) \<and> i < length vs
     \<and> vs ! i = (b \<or> is_missing (cells vc ! i) \<or> is_false_text (cells vc ! i))"
proof -
  from m v obtain tc where
    df': "df' = setitem (setitem df ''throughput'' tc) ''verified'' (astype_bool vc)"
    unfolding linear_metrics_Inr by auto
  obtain vs where vs: "astype_bool vc = BoolCol vs" using astype_bool_is_bool by blast
  have g: "getitem df' ''verified'' = Inr (BoolCol vs)"
    unfolding df' using vs by (simp add: getitem_setitem)
  have len: "i < length vs"
    using i col_len_astype_bool [of vc] unfolding vs by (simp add: col_len_def)
  from cells_against_spec [OF i s] len
  have r: "vs ! i = (b \<or> is_missing (cells vc ! i) \<or> is_false_text (cells vc ! i))"
    unfolding vs by simp
  from m have lg: "log_metrics df = Inr df'" by (simp add: log_metrics_eq)
  show ?thesis
    by (rule exI [of _ vs]) (intro conjI lg g len r)
qed

text \<open>
  The text "false" in a column of texts is coerced to true.
\<close>

theorem coercion_against_spec_witness:
  "\<exists>vs. log_metrics answers_table = Inr answers_metrics
     \<and> getitem answers_metrics ''verified'' = Inr (BoolCol vs) \<and> 1 < length vs
     \<and> vs ! 1 = True \<and> spec_coerce (CObj (PStr ''false'')) = Some False"
proof -
  have v: "getitem answers_table ''verified'' = Inr (ObjCol [PStr ''yes'', PStr ''false'', PStr ''False'', PFloat NaN])"
    by (simp add: getitem_def answers_table_def)
  have m: "linear_metrics answers_table = Inr answers_metrics"
    by (simp add: eval_defs answers_table_def answers_metrics_def)
  have i: "1 < col_len (ObjCol [PStr ''yes'', PStr ''false'', PStr ''False'', PFloat NaN])"
    by (simp add: col_len_def)
  have s: "spec_coerce (cells (ObjCol [PStr ''yes'', PStr ''false'', PStr ''False'', PFloat NaN]) ! 1) = Some False"
    by (simp add: lower_def lower_char_def)
  from coercion_against_spec [OF v m i s] s show ?thesis
    by (simp add: lower_def lower_char_def)
qed

text \<open>
  As stated the claim fails: in a column of texts both "false" and the empty cell become
  true, where the specification asks for false.
\<close>

theorem coercion_against_spec_counterexample:
  "column_after linear_metrics ''verified'' answers_table = Inr (BoolCol [True, True, True, True])
   \<and> column_after log_metrics ''verified'' answers_table = Inr (BoolCol [True, True, True, True])
   \<and> getitem answers_table ''verified'' = Inr (ObjCol [PStr ''yes'', PStr ''false'', PStr ''False'', PFloat NaN])
   \<and> spec_coerce (CObj (PStr ''false'')) = Some False
   \<and> spec_coerce (CObj (PFloat NaN)) = Some False"
  by (simp add: column_after_def log_metrics_def eval_defs answers_table_def lower_def lower_char_def)

section \<open>Errors other than a missing file\<close>

text \<open>
  C5. On a file without the \<^verbatim>\<open>num_txns\<close> column the logarithmic pipeline does not
  catch the KeyError: nothing handles it, no message of the program is printed and the
  run ends with the exception. The linear pipeline catches the same error and prints it.
  That the linear pipeline does so for every error of its body is \<open>linear_catches\<close>;
  that the logarithmic pipeline lets every error of its chart escape is \<open>log_uncaught\<close>,
  and every error of loading other than the missing file \<open>log_uncaught_load\<close>.
\<close>

theorem uncaught_in_log_pipeline:
  "generate_log_linegraph ''measurements.csv'' (world_of headless_table)
     = (Crashed (KeyError ''num_txns''), world_of headless_table)
   \<and> generate_throughput_linegraph ''measurements.csv'' (world_of headless_table)
     = (Returned, print (world_of headless_table) (''An error occurred: '' @ quoted ''num_txns''))"
  by (simp add: generate_log_linegraph_def generate_throughput_linegraph_def linear_body_def
      read_csv_def world_of_def log_chart_def linear_chart_def log_metrics_def linear_metrics_def
      getitem_def headless_table_def)

section \<open>A missing input file\<close>

text \<open>
  C6 (amended). For every path for which opening the file raises FileNotFoundError (the
  operating system reports that there is no such file or directory), each pipeline
  prints the file-not-found message naming the path, returns, and leaves the output
  files as they were.
\<close>

theorem missing_file_reported:
  assumes "files w p = Raises (FileNotFoundError q)"
  shows "generate_throughput_linegraph p w
           = (Returned, print w (''Error: The file '' @ quoted p @ '' was not found.''))
       \<and> generate_log_linegraph p w
           = (Returned, print w (''Error: The file '' @ quoted p @ '' was not found.''))
       \<and> outputs (snd (generate_throughput_linegraph p w)) = outputs w
       \<and> outputs (snd (generate_log_linegraph p w)) = outputs w"
  using assms
  by (simp add: generate_throughput_linegraph_def linear_body_def generate_log_linegraph_def
      read_csv_def)

text \<open>
  No file \<^verbatim>\<open>absent.csv\<close> exists in the example directory.
\<close>

theorem missing_file_reported_witness:
  "files (world_of example_table) ''absent.csv'' = Raises (FileNotFoundError ''absent.csv'')
   \<and> generate_throughput_linegraph ''absent.csv'' (world_of example_table)
       = (Returned, print (world_of example_table)
                      (''Error: The file '' @ quoted ''absent.csv'' @ '' was not found.''))
   \<and> generate_log_linegraph ''absent.csv'' (world_of example_table)
       = (Returned, print (world_of example_table)
                      (''Error: The file '' @ quoted ''absent.csv'' @ '' was not found.''))
   \<and> outputs (snd (generate_throughput_linegraph ''absent.csv'' (world_of example_table)))
       = outputs (world_of example_table)
   \<and> outputs (snd (generate_log_linegraph ''absent.csv'' (world_of example_table)))
       = outputs (world_of example_table)"
proof -
  have h: "files (world_of example_table) ''absent.csv'' = Raises (FileNotFoundError ''absent.csv'')"
    by (simp add: world_of_def)
  from missing_file_reported [OF h] h show ?thesis by (intro conjI) simp_all
qed

text \<open>
  As stated for every path that does not resolve to a readable file, the claim fails: a
  file that exists and cannot be read raises PermissionError, and a path through a file
  that is not a directory raises NotADirectoryError. The linear pipeline reports either
  as a generic error and the logarithmic pipeline does not catch it.
\<close>

theorem missing_file_counterexample:
  "generate_throughput_linegraph ''measurements.csv'' locked_world
     = (Returned, print locked_world
          (''An error occurred: [Errno 13] Permission denied: '' @ quoted ''measurements.csv''))
   \<and> generate_log_linegraph ''measurements.csv'' locked_world
     = (Crashed (PermissionError ''measurements.csv''), locked_world)
   \<and> generate_throughput_linegraph ''measurements.csv/x'' locked_world
     = (Returned, print locked_world
          (''An error occurred: [Errno 20] Not a directory: '' @ quoted ''measurements.csv/x''))
   \<and> generate_log_linegraph ''measurements.csv/x'' locked_world
     = (Crashed (NotADirectoryError ''measurements.csv/x''), locked_world)"
  by (simp add: generate_log_linegraph_def generate_throughput_linegraph_def linear_body_def
      read_csv_def locked_world_def)

section \<open>The empty table\<close>

text \<open>
  C7. For a table with no rows that has the four columns, in both pipelines the metric
  step succeeds, both partitions are empty, the chart is made and its two series have no
  points; and where saving under the output name raises nothing the run saves the
  chart, prints the confirmation and returns.
\<close>

theorem empty_table_chart:
  assumes wf: "wf_df df" and empty: "index df = []"
    and nc: "getitem df ''num_txns'' = Inr nc" and ec: "getitem df ''elapsed_ms'' = Inr ec"
    and kc: "getitem df ''num_keys'' = Inr kc" and vc: "getitem df ''verified'' = Inr vc"
  shows "\<exists>d t fa f g.
         linear_metrics df = Inr d \<and> log_metrics df = Inr d
       \<and> linear_partition d = Inr (t, fa) \<and> log_partition d = Inr (t, fa)
       \<and> rows t = [] \<and> rows fa = []
       \<and> linear_chart df = Inr f \<and> log_chart df = Inr g
       \<and> map points (plotted f) = [[], []] \<and> map points (plotted g) = [[], []]
       \<and> (files w p = Table df \<and> save_error w ''linegraph.png'' = None \<longrightarrow>
            generate_throughput_linegraph p w
            = (Returned, print (w\<lparr>outputs := (outputs w)(''linegraph.png'' \<mapsto> f)\<rparr>)
                           ''Line graph saved to linegraph.png''))
       \<and> (files w p = Table df \<and> save_error w ''linegraph_log.png'' = None \<longrightarrow>
            generate_log_linegraph p w
            = (Returned, print (w\<lparr>outputs := (outputs w)(''linegraph_log.png'' \<mapsto> g)\<rparr>)
                           ''Graph saved to linegraph_log.png''))"
proof -
  have "col_len (mul_scalar nc 1000) = 0"
    using getitem_col_len [OF wf nc] empty by simp
  then obtain tc where tc: "truediv (mul_scalar nc 1000) ec = Inr tc"
    using truediv_empty by blast
  let ?d = "setitem (setitem df ''throughput'' tc) ''verified'' (astype_bool vc)"
  have m: "linear_metrics df = Inr ?d"
    unfolding linear_metrics_Inr using nc ec vc tc by blast
  have lm: "log_metrics df = Inr ?d" using m by (simp add: log_metrics_eq)
  have wfd: "wf_df ?d" using wf m by (rule wf_metrics)
  have rd: "rows ?d = []" using length_rows [of ?d] empty by simp
  have t0: "cells tc = []"
    using col_len_truediv [OF tc] getitem_col_len [OF wf nc] empty by (simp add: empty_cells)
  have k0: "cells kc = []" using getitem_col_len [OF wf kc] empty by (simp add: empty_cells)
  have gt: "getitem ?d ''throughput'' = Inr tc" by (simp add: getitem_setitem)
  from chart_result [OF m kc] obtain tc' vs where
    gt': "getitem ?d ''throughput'' = Inr tc'"
    and gv: "getitem ?d ''verified'' = Inr (BoolCol vs)"
    and ok: "first_error [plot_error (select_col vs kc) (select_col vs tc'),
                    plot_error (select_col (map Not vs) kc) (select_col (map Not vs) tc')] = None
               \<longrightarrow> (\<exists>f. linear_chart df = Inr f \<and> log_chart df = Inr (log_styled f)
                     \<and> series_data f
                       = [(select_col vs kc, select_col vs tc'),
                          (select_col (map Not vs) kc, select_col (map Not vs) tc')])"
    by (elim exE conjE) (rule that)
  from gt gt' have tc': "tc' = tc" by simp
  have pe: "\<And>ms. plot_error (select_col ms kc) (select_col ms tc) = None"
    by (rule plot_error_empty) (simp_all add: cells_select_col k0 t0)
  from ok obtain f where f: "linear_chart df = Inr f" and g: "log_chart df = Inr (log_styled f)"
    and pf: "series_data f
             = [(select_col vs kc, select_col vs tc),
                (select_col (map Not vs) kc, select_col (map Not vs) tc)]"
    unfolding tc' by (auto simp add: pe)
  let ?t = "select_rows ?d (map (\<lambda>v. v = True) vs)"
  let ?fa = "select_rows ?d (map (\<lambda>v. v = False) vs)"
  have p: "linear_partition ?d = Inr (?t, ?fa)" using gv by (rule linear_partition_bool)
  have lp: "log_partition ?d = Inr (?t, ?fa)" using p by (simp add: log_partition_eq)
  have rt: "rows ?t = []" and rf: "rows ?fa = []"
    using rows_select_rows [OF wfd] rd by simp_all
  have ptf: "map points (plotted f) = [[], []]"
    unfolding points_series pf by (simp add: cells_select_col k0)
  have ptg: "map points (plotted (log_styled f)) = [[], []]"
    unfolding points_series series_data_log_styled pf by (simp add: cells_select_col k0)
  have rl: "files w p = Table df \<and> save_error w ''linegraph.png'' = None \<longrightarrow>
            generate_throughput_linegraph p w
            = (Returned, print (w\<lparr>outputs := (outputs w)(''linegraph.png'' \<mapsto> f)\<rparr>)
                           ''Line graph saved to linegraph.png'')"
    using f by (simp add: run_linear_ok)
  have rg: "files w p = Table df \<and> save_error w ''linegraph_log.png'' = None \<longrightarrow>
            generate_log_linegraph p w
            = (Returned, print (w\<lparr>outputs := (outputs w)(''linegraph_log.png'' \<mapsto> log_styled f)\<rparr>)
                           ''Graph saved to linegraph_log.png'')"
    using g by (simp add: run_log_ok)
  show ?thesis
    by (rule exI [of _ ?d], rule exI [of _ ?t], rule exI [of _ ?fa], rule exI [of _ f],
        rule exI [of _ "log_styled f"]) (intro conjI m lm p lp rt rf f g ptf ptg rl rg)
qed

text \<open>
  The table read from a file with the header alone.
\<close>

theorem empty_table_chart_witness:
  "\<exists>d t fa f g.
         linear_metrics header_only_table = Inr d \<and> log_metrics header_only_table = Inr d
       \<and> linear_partition d = Inr (t, fa) \<and> log_partition d = Inr (t, fa)
       \<and> rows t = [] \<and> rows fa = []
       \<and> linear_chart header_only_table = Inr f \<and> log_chart header_only_table = Inr g
       \<and> map points (plotted f) = [[], []] \<and> map points (plotted g) = [[], []]
       \<and> generate_throughput_linegraph ''measurements.csv'' (world_of header_only_table)
            = (Returned, print ((world_of header_only_table)
                 \<lparr>outputs := (outputs (world_of header_only_table))(''linegraph.png'' \<mapsto> f)\<rparr>)
                           ''Line graph saved to linegraph.png'')
       \<and> generate_log_linegraph ''measurements.csv'' (world_of header_only_table)
            = (Returned, print ((world_of header_only_table)
                 \<lparr>outputs := (outputs (world_of header_only_table))(''linegraph_log.png'' \<mapsto> g)\<rparr>)
                           ''Graph saved to linegraph_log.png'')"
proof -
  have wf: "wf_df header_only_table"
    by (simp add: wf_df_def header_only_table_def col_len_def)
  have e: "index header_only_table = []" by (simp add: header_only_table_def)
  have c: "getitem header_only_table ''num_txns'' = Inr (ObjCol [])"
    "getitem header_only_table ''elapsed_ms'' = Inr (ObjCol [])"
    "getitem header_only_table ''num_keys'' = Inr (ObjCol [])"
    "getitem header_only_table ''verified'' = Inr (ObjCol [])"
    by (simp_all add: getitem_def header_only_table_def)
  have w: "files (world_of header_only_table) ''measurements.csv'' = Table header_only_table"
    "save_error (world_of header_only_table) ''linegraph.png'' = None"
    "save_error (world_of header_only_table) ''linegraph_log.png'' = None"
    by (simp_all add: world_of_def)
  from empty_table_chart [OF wf e c, of "world_of header_only_table" "''measurements.csv''"] w
  show ?thesis by simp
qed

section \<open>The order of the plotted points\<close>

text \<open>
  C8. For every table on which the metric step succeeds and that has the column
  \<^verbatim>\<open>num_keys\<close>: whenever plotting the two series raises no exception, both charts are
  made, and the points of the first series are the pairs of \<^verbatim>\<open>num_keys\<close> and throughput
  of the rows with \<^verbatim>\<open>verified\<close> true, those of the second series the pairs of the other
  rows, each in the order of the table: the rows are filtered, never sorted. When
  plotting raises an exception (text keys with a key missing, say) that exception ends
  the plotting of both pipelines and neither chart is made.
\<close>

theorem plotted_in_table_order:
  assumes m: "linear_metrics df0 = Inr df"
    and k: "getitem df0 ''num_keys'' = Inr kc"
  shows "\<exists>tc vs.
           getitem df ''throughput'' = Inr tc
         \<and> getitem df ''verified'' = Inr (BoolCol vs)
         \<and> (\<forall>e. first_error [plot_error (select_col vs kc) (select_col vs tc),
                    plot_error (select_col (map Not vs) kc) (select_col (map Not vs) tc)] = Some e
               \<longrightarrow> linear_chart df0 = Inl e \<and> log_chart df0 = Inl e)
         \<and> (first_error [plot_error (select_col vs kc) (select_col vs tc),
                    plot_error (select_col (map Not vs) kc) (select_col (map Not vs) tc)] = None
               \<longrightarrow> (\<exists>f g. linear_chart df0 = Inr f \<and> log_chart df0 = Inr g
                     \<and> map points (plotted f)
                         = [map snd (filter fst (zip vs (zip (cells kc) (cells tc)))),
                            map snd (filter (\<lambda>p. \<not> fst p) (zip vs (zip (cells kc) (cells tc))))]
                     \<and> map points (plotted g) = map points (plotted f)))"
proof -
  let ?fe = "\<lambda>tc vs. first_error [plot_error (select_col vs kc) (select_col vs tc),
                    plot_error (select_col (map Not vs) kc) (select_col (map Not vs) tc)]"
  from chart_result [OF assms] obtain tc vs where
    gt: "getitem df ''throughput'' = Inr tc" and gv: "getitem df ''verified'' = Inr (BoolCol vs)"
    and bad: "\<forall>e. ?fe tc vs = Some e \<longrightarrow> linear_chart df0 = Inl e \<and> log_chart df0 = Inl e"
    and ok: "?fe tc vs = None
               \<longrightarrow> (\<exists>f. linear_chart df0 = Inr f \<and> log_chart df0 = Inr (log_styled f)
                     \<and> series_data f
                       = [(select_col vs kc, select_col vs tc),
                          (select_col (map Not vs) kc, select_col (map Not vs) tc)])"
    by (elim exE conjE) (rule that)
  have good: "?fe tc vs = None
               \<longrightarrow> (\<exists>f g. linear_chart df0 = Inr f \<and> log_chart df0 = Inr g
                     \<and> map points (plotted f)
                         = [map snd (filter fst (zip vs (zip (cells kc) (cells tc)))),
                            map snd (filter (\<lambda>p. \<not> fst p) (zip vs (zip (cells kc) (cells tc))))]
                     \<and> map points (plotted g) = map points (plotted f))"
  proof
    assume "?fe tc vs = None"
    with ok obtain f where f: "linear_chart df0 = Inr f" and g: "log_chart df0 = Inr (log_styled f)"
      and pf: "series_data f
                       = [(select_col vs kc, select_col vs tc),
                          (select_col (map Not vs) kc, select_col (map Not vs) tc)]"
      by blast
    have ptf: "map points (plotted f)
             = [map snd (filter fst (zip vs (zip (cells kc) (cells tc)))),
                map snd (filter (\<lambda>p. \<not> fst p) (zip vs (zip (cells kc) (cells tc))))]"
      unfolding points_series pf by (simp add: points_select filter_negated_mask)
    have ptg: "map points (plotted (log_styled f)) = map points (plotted f)"
      unfolding points_series series_data_log_styled ..
    show "\<exists>f g. linear_chart df0 = Inr f \<and> log_chart df0 = Inr g
                     \<and> map points (plotted f)
                         = [map snd (filter fst (zip vs (zip (cells kc) (cells tc)))),
                            map snd (filter (\<lambda>p. \<not> fst p) (zip vs (zip (cells kc) (cells tc))))]
                     \<and> map points (plotted g) = map points (plotted f)"
      by (rule exI [of _ f], rule exI [of _ "log_styled f"]) (intro conjI f g ptf ptg)
  qed
  show ?thesis
    by (rule exI [of _ tc], rule exI [of _ vs]) (intro conjI gt gv bad good)
qed

text \<open>
  Rows with the keys 30, 10, 20: the first series is plotted with X = 30, 10, which is
  not sorted. Rows with the keys "a", a missing key and "b": plotting raises TypeError.
\<close>

theorem plotted_in_table_order_witness:
  "(\<exists>f g. linear_chart unordered_table = Inr f \<and> log_chart unordered_table = Inr g
     \<and> map points (plotted f)
         = [[(CInt 30, CFloat (Fin 2000)), (CInt 10, CFloat (Fin 4000))],
            [(CInt 20, CFloat (Fin 6000))]]
     \<and> map points (plotted g) = map points (plotted f))
   \<and> linear_chart labelled_table
       = Inl (TypeError (quoted ''value'' @ '' must be an instance of str or bytes, not a float''))
   \<and> log_chart labelled_table
       = Inl (TypeError (quoted ''value'' @ '' must be an instance of str or bytes, not a float''))"
proof -
  have m: "linear_metrics unordered_table = Inr unordered_metrics"
    by (simp add: eval_defs unordered_table_def unordered_metrics_def)
  have k: "getitem unordered_table ''num_keys'' = Inr (IntCol [30, 10, 20])"
    by (simp add: getitem_def unordered_table_def)
  from plotted_in_table_order [OF m k] obtain tc vs where
    gt: "getitem unordered_metrics ''throughput'' = Inr tc"
    and gv: "getitem unordered_metrics ''verified'' = Inr (BoolCol vs)"
    and ok: "first_error [plot_error (select_col vs (IntCol [30, 10, 20])) (select_col vs tc),
                    plot_error (select_col (map Not vs) (IntCol [30, 10, 20])) (select_col (map Not vs) tc)] = None
               \<longrightarrow> (\<exists>f g. linear_chart unordered_table = Inr f \<and> log_chart unordered_table = Inr g
                     \<and> map points (plotted f)
                         = [map snd (filter fst (zip vs (zip (cells (IntCol [30, 10, 20])) (cells tc)))),
                            map snd (filter (\<lambda>p. \<not> fst p) (zip vs (zip (cells (IntCol [30, 10, 20])) (cells tc))))]
                     \<and> map points (plotted g) = map points (plotted f))"
    by (elim exE conjE) (rule that)
  from gt have tc: "tc = FloatCol [Fin 2000, Fin 4000, Fin 6000]"
    by (simp add: getitem_def unordered_metrics_def)
  from gv have vs: "vs = [True, True, False]"
    by (simp add: getitem_def unordered_metrics_def)
  from ok have 1: "\<exists>f g. linear_chart unordered_table = Inr f \<and> log_chart unordered_table = Inr g
     \<and> map points (plotted f)
         = [[(CInt 30, CFloat (Fin 2000)), (CInt 10, CFloat (Fin 4000))],
            [(CInt 20, CFloat (Fin 6000))]]
     \<and> map points (plotted g) = map points (plotted f)"
    unfolding tc vs by (simp add: plot_error_def col_len_def)
  have lm: "linear_metrics labelled_table = Inr labelled_metrics"
    by (simp add: eval_defs labelled_table_def labelled_metrics_def)
  have lk: "getitem labelled_table ''num_keys'' = Inr (ObjCol [PStr ''a'', PFloat NaN, PStr ''b''])"
    by (simp add: getitem_def labelled_table_def)
  from plotted_in_table_order [OF lm lk] obtain tc' vs' where
    gt': "getitem labelled_metrics ''throughput'' = Inr tc'"
    and gv': "getitem labelled_metrics ''verified'' = Inr (BoolCol vs')"
    and bad: "\<forall>e. first_error [plot_error (select_col vs' (ObjCol [PStr ''a'', PFloat NaN, PStr ''b''])) (select_col vs' tc'),
                    plot_error (select_col (map Not vs') (ObjCol [PStr ''a'', PFloat NaN, PStr ''b'']))
                      (select_col (map Not vs') tc')] = Some e
               \<longrightarrow> linear_chart labelled_table = Inl e \<and> log_chart labelled_table = Inl e"
    by (elim exE conjE) (rule that)
  from gt' have tc': "tc' = FloatCol [Fin 2000, Fin 4000, Fin 6000]"
    by (simp add: getitem_def labelled_metrics_def)
  from gv' have vs': "vs' = [True, True, True]"
    by (simp add: getitem_def labelled_metrics_def)
  from bad have 2: "linear_chart labelled_table
       = Inl (TypeError (quoted ''value'' @ '' must be an instance of str or bytes, not a float''))
   \<and> log_chart labelled_table
       = Inl (TypeError (quoted ''value'' @ '' must be an instance of str or bytes, not a float''))"
    unfolding tc' vs' by (simp add: plot_error_def categorical_def)
  from 1 2 show ?thesis by (rule conjI)
qed

section \<open>What the metric step changes\<close>

text \<open>
  C9 (amended). The metric step of either pipeline keeps the row labels and every column
  other than \<^verbatim>\<open>throughput\<close> and \<^verbatim>\<open>verified\<close>; it replaces \<^verbatim>\<open>verified\<close> by its boolean
  coercion, which leaves a column that is already boolean as it is; and the column names
  and their order are those of the table, with \<^verbatim>\<open>throughput\<close> added last unless the
  table already had it.
\<close>

theorem metrics_frame:
  assumes "linear_metrics df = Inr df'"
  shows "log_metrics df = Inr df'
       \<and> index df' = index df
       \<and> (\<forall>name. name \<noteq> ''throughput'' \<and> name \<noteq> ''verified'' \<longrightarrow>
            getitem df' name = getitem df name)
       \<and> (\<exists>vc. getitem df ''verified'' = Inr vc \<and> getitem df' ''verified'' = Inr (astype_bool vc))
       \<and> (\<forall>vs. getitem df ''verified'' = Inr (BoolCol vs) \<longrightarrow>
            getitem df' ''verified'' = Inr (BoolCol vs))
       \<and> map fst (columns df')
           = (if ''throughput'' \<in> set (map fst (columns df)) then map fst (columns df)
              else map fst (columns df) @ [''throughput''])"
proof -
  from assms obtain tc vc where
    vc: "getitem df ''verified'' = Inr vc"
    and df': "df' = setitem (setitem df ''throughput'' tc) ''verified'' (astype_bool vc)"
    unfolding linear_metrics_Inr by blast
  have v: "''verified'' \<in> set (map fst (columns df))" using vc by (rule getitem_name)
  have names: "map fst (columns df')
           = (if ''throughput'' \<in> set (map fst (columns df)) then map fst (columns df)
              else map fst (columns df) @ [''throughput''])"
    unfolding df' using v by (simp add: names_setitem)
  have bool: "\<forall>vs. getitem df ''verified'' = Inr (BoolCol vs) \<longrightarrow>
            getitem df' ''verified'' = Inr (BoolCol vs)"
    unfolding df' using vc by (auto simp add: getitem_setitem)
  have other: "\<forall>name. name \<noteq> ''throughput'' \<and> name \<noteq> ''verified'' \<longrightarrow>
            getitem df' name = getitem df name"
    unfolding df' by (simp add: getitem_setitem)
  have ver: "\<exists>vc. getitem df ''verified'' = Inr vc \<and> getitem df' ''verified'' = Inr (astype_bool vc)"
    unfolding df' using vc by (simp add: getitem_setitem)
  have idx: "index df' = index df" unfolding df' by simp
  from assms have lg: "log_metrics df = Inr df'" by (simp add: log_metrics_eq)
  from lg idx other ver bool names show ?thesis by (intro conjI)
qed

text \<open>
  The example table, whose \<^verbatim>\<open>verified\<close> column is boolean.
\<close>

theorem metrics_frame_witness:
  "log_metrics example_table = Inr example_metrics
       \<and> index example_metrics = index example_table
       \<and> getitem example_metrics ''num_txns'' = getitem example_table ''num_txns''
       \<and> getitem example_metrics ''elapsed_ms'' = getitem example_table ''elapsed_ms''
       \<and> getitem example_metrics ''num_keys'' = Inr (IntCol [10, 20])
       \<and> getitem example_metrics ''verified'' = Inr (BoolCol [True, False])
       \<and> map fst (columns example_metrics)
           = [''num_txns'', ''elapsed_ms'', ''num_keys'', ''verified'', ''throughput'']"
proof -
  have m: "linear_metrics example_table = Inr example_metrics"
    by (simp add: eval_defs example_table_def example_metrics_def)
  have v: "getitem example_table ''verified'' = Inr (BoolCol [True, False])"
    by (simp add: getitem_def example_table_def)
  have k: "getitem example_table ''num_keys'' = Inr (IntCol [10, 20])"
    by (simp add: getitem_def example_table_def)
  have n: "map fst (columns example_table) = [''num_txns'', ''elapsed_ms'', ''num_keys'', ''verified'']"
    by (simp add: example_table_def)
  note r = metrics_frame [OF m]
  from r have 1: "log_metrics example_table = Inr example_metrics" by (rule conjunct1)
  from r have 2: "index example_metrics = index example_table" by blast
  from r have 3: "\<forall>name. name \<noteq> ''throughput'' \<and> name \<noteq> ''verified'' \<longrightarrow>
            getitem example_metrics name = getitem example_table name" by blast
  from 3 have 4: "getitem example_metrics ''num_txns'' = getitem example_table ''num_txns''"
    "getitem example_metrics ''elapsed_ms'' = getitem example_table ''elapsed_ms''"
    by simp_all
  from 3 k have 5: "getitem example_metrics ''num_keys'' = Inr (IntCol [10, 20])" by simp
  from r v have 6: "getitem example_metrics ''verified'' = Inr (BoolCol [True, False])" by blast
  from r n have 7: "map fst (columns example_metrics)
           = [''num_txns'', ''elapsed_ms'', ''num_keys'', ''verified'', ''throughput'']" by simp
  from 1 2 4 5 6 7 show ?thesis by (intro conjI)
qed

text \<open>
  As stated the claim fails: the metric step changes the values of a \<^verbatim>\<open>verified\<close>
  column of texts.
\<close>

theorem metrics_frame_counterexample:
  "getitem answers_table ''verified'' = Inr (ObjCol [PStr ''yes'', PStr ''false'', PStr ''False'', PFloat NaN])
   \<and> column_after linear_metrics ''verified'' answers_table = Inr (BoolCol [True, True, True, True])
   \<and> column_after log_metrics ''verified'' answers_table = Inr (BoolCol [True, True, True, True])"
  by (simp add: column_after_def log_metrics_def eval_defs answers_table_def)

section \<open>The boolean coercion of the program\<close>

text \<open>
  C10. In both pipelines the coerced \<^verbatim>\<open>verified\<close> column is boolean and, row by row,
  false for the number 0 (also the negative zero of a float), true for every other
  number, the boolean itself for a boolean and true for every non-empty text.
\<close>

theorem coercion_values:
  assumes v: "getitem df ''verified'' = Inr vc"
    and m: "linear_metrics df = Inr df'"
    and i: "i < col_len vc"
  shows "\<exists>vs. log_metrics df = Inr df'
     \<and> getitem df' ''verified'' = Inr (BoolCol vs) \<and> i < length vs
     \<and> (\<forall>f. cell_number (cells vc ! i) = Some f \<and> is_zero f \<longrightarrow> \<not> vs ! i)
     \<and> (\<forall>f. cell_number (cells vc ! i) = Some f \<and> \<not> is_zero f \<longrightarrow> vs ! i)
     \<and> (\<forall>t. cell_boolean (cells vc ! i) = Some t \<longrightarrow> vs ! i = t)
     \<and> (\<forall>s. cell_text (cells vc ! i) = Some s \<and> s \<noteq> [] \<longrightarrow> vs ! i)"
proof -
  from m v obtain tc where
    df': "df' = setitem (setitem df ''throughput'' tc) ''verified'' (astype_bool vc)"
    unfolding linear_metrics_Inr by auto
  obtain vs where vs: "astype_bool vc = BoolCol vs" using astype_bool_is_bool by blast
  have g: "getitem df' ''verified'' = Inr (BoolCol vs)"
    unfolding df' using vs by (simp add: getitem_setitem)
  have len: "i < length vs"
    using i col_len_astype_bool [of vc] unfolding vs by (simp add: col_len_def)
  from cells_astype_bool [OF i] obtain b where
    b: "cells (astype_bool vc) ! i = CBool b"
    and r: "\<forall>f. cell_number (cells vc ! i) = Some f \<and> is_zero f \<longrightarrow> \<not> b"
       "\<forall>f. cell_number (cells vc ! i) = Some f \<and> \<not> is_zero f \<longrightarrow> b"
       "\<forall>t. cell_boolean (cells vc ! i) = Some t \<longrightarrow> b = t"
       "\<forall>s. cell_text (cells vc ! i) = Some s \<and> s \<noteq> [] \<longrightarrow> b"
    by (elim exE conjE) (rule that)
  from b len have "vs ! i = b" unfolding vs by simp
  with r have r': "\<forall>f. cell_number (cells vc ! i) = Some f \<and> is_zero f \<longrightarrow> \<not> vs ! i"
       "\<forall>f. cell_number (cells vc ! i) = Some f \<and> \<not> is_zero f \<longrightarrow> vs ! i"
       "\<forall>t. cell_boolean (cells vc ! i) = Some t \<longrightarrow> vs ! i = t"
       "\<forall>s. cell_text (cells vc ! i) = Some s \<and> s \<noteq> [] \<longrightarrow> vs ! i"
    by simp_all
  from m have lg: "log_metrics df = Inr df'" by (simp add: log_metrics_eq)
  show ?thesis
    by (rule exI [of _ vs]) (intro conjI lg g len r')
qed

text \<open>
  The text "False" is coerced to true, the count 0 to false and the count 7 to true, and
  booleans stay as they are.
\<close>

theorem coercion_values_witness:
  "(\<exists>vs. log_metrics answers_table = Inr answers_metrics
      \<and> getitem answers_metrics ''verified'' = Inr (BoolCol vs) \<and> 2 < length vs \<and> vs ! 2)
   \<and> (\<exists>vs. log_metrics counted_table = Inr counted_metrics
      \<and> getitem counted_metrics ''verified'' = Inr (BoolCol vs) \<and> 1 < length vs
      \<and> \<not> vs ! 0 \<and> vs ! 1)
   \<and> (\<exists>vs. log_metrics example_table = Inr example_metrics
      \<and> getitem example_metrics ''verified'' = Inr (BoolCol vs) \<and> 1 < length vs
      \<and> vs ! 0 \<and> \<not> vs ! 1)"
proof -
  have v: "getitem answers_table ''verified''
           = Inr (ObjCol [PStr ''yes'', PStr ''false'', PStr ''False'', PFloat NaN])"
    by (simp add: getitem_def answers_table_def)
  have m: "linear_metrics answers_table = Inr answers_metrics"
    by (simp add: eval_defs answers_table_def answers_metrics_def)
  have i: "2 < col_len (ObjCol [PStr ''yes'', PStr ''false'', PStr ''False'', PFloat NaN])"
    by (simp add: col_len_def)
  from coercion_values [OF v m i]
  have 1: "\<exists>vs. log_metrics answers_table = Inr answers_metrics
      \<and> getitem answers_metrics ''verified'' = Inr (BoolCol vs) \<and> 2 < length vs \<and> vs ! 2"
    by simp
  have cv: "getitem counted_table ''verified'' = Inr (IntCol [0, 7])"
    by (simp add: getitem_def counted_table_def)
  have cm: "linear_metrics counted_table = Inr counted_metrics"
    by (simp add: eval_defs counted_table_def counted_metrics_def)
  have c0: "0 < col_len (IntCol [0, 7])" and c1: "1 < col_len (IntCol [0, 7])"
    by (simp_all add: col_len_def)
  from coercion_values [OF cv cm c0] coercion_values [OF cv cm c1]
  have 2: "\<exists>vs. log_metrics counted_table = Inr counted_metrics
      \<and> getitem counted_metrics ''verified'' = Inr (BoolCol vs) \<and> 1 < length vs
      \<and> \<not> vs ! 0 \<and> vs ! 1"
    by auto
  have ev: "getitem example_table ''verified'' = Inr (BoolCol [True, False])"
    by (simp add: getitem_def example_table_def)
  have em: "linear_metrics example_table = Inr example_metrics"
    by (simp add: eval_defs example_table_def example_metrics_def)
  have e0: "0 < col_len (BoolCol [True, False])" and e1: "1 < col_len (BoolCol [True, False])"
    by (simp_all add: col_len_def)
  from coercion_values [OF ev em e0] coercion_values [OF ev em e1]
  have 3: "\<exists>vs. log_metrics example_table = Inr example_metrics
      \<and> getitem example_metrics ''verified'' = Inr (BoolCol vs) \<and> 1 < length vs
      \<and> vs ! 0 \<and> \<not> vs ! 1"
    by auto
  from 1 2 3 show ?thesis by (intro conjI)
qed

end
